theory Spec2Isabelle
  imports Main
begin

section \<open>Data model\<close>

text \<open>
  The entity types of the lending tracker. The repository's type declarations are imported
  by every service from a types module; the records below carry the fields the services
  read and write. An optional field of the source (\<open>rollNo?\<close>, \<open>logoutTime?\<close>) is an
  \<open>option\<close>. A timestamp is held in the source as the ISO-8601 string of an instant with
  millisecond precision and is read back with \<open>new Date(s).getTime()\<close>; here it is the
  integer number of milliseconds itself.
\<close>

datatype Role = Student | Admin

datatype RequestStatus = Pending | Approved | Rejected | Returned

record User =
  u_id :: string
  u_name :: string
  u_email :: string
  u_role :: Role
  u_rollNo :: "string option"
  u_mobile :: "string option"
  u_registeredAt :: int
  u_lastLoginAt :: "int option"
  u_loginCount :: nat
  u_isActive :: bool

record Component =
  c_id :: string
  c_name :: string
  c_totalQuantity :: nat
  c_availableQuantity :: nat
  c_category :: string
  c_description :: string

record BorrowRequest =
  r_id :: string
  r_studentId :: string
  r_componentId :: string
  r_status :: RequestStatus
  r_dueDate :: int
  r_createdAt :: int

record Notification =
  n_id :: string
  n_userId :: string
  n_title :: string
  n_message :: string
  n_type :: string
  n_read :: bool
  n_createdAt :: int

record LoginSession =
  s_id :: string
  s_userId :: string
  s_userEmail :: string
  s_userName :: string
  s_userRole :: Role
  s_loginTime :: int
  s_logoutTime :: "int option"
  s_sessionDuration :: "int option"
  s_ipAddress :: string
  s_userAgent :: string
  s_deviceInfo :: string
  s_isActive :: bool

record SystemData =
  users :: "User list"
  components :: "Component list"
  requests :: "BorrowRequest list"
  notifications :: "Notification list"
  loginSessions :: "LoginSession list"

record SystemStats =
  totalUsers :: nat
  activeUsers :: nat
  totalLogins :: nat
  onlineUsers :: nat
  totalRequests :: nat
  pendingRequests :: nat
  totalComponents :: nat
  overdueItems :: nat

section \<open>The host environment and the persisted slots\<close>

text \<open>
  What the services read from the browser: the wall clock (\<open>new Date()\<close>, \<open>Date.now()\<close>),
  \<open>Math.random()\<close> (already rendered as the nine base-36 characters the session id uses),
  \<open>navigator.userAgent\<close> and the locale's date format (\<open>Date.toLocaleString\<close>). The
  \<open>k\<close>-th read of the clock or of the random source returns \<open>clock env k\<close> or
  \<open>random env k\<close>; the counter \<open>tick\<close> of the world says how many reads have happened.
\<close>

record env =
  clock :: "nat \<Rightarrow> int"
  random :: "nat \<Rightarrow> string"
  userAgent :: string
  toLocaleString :: "int \<Rightarrow> string"

text \<open>
  The slots of \<open>localStorage\<close>: \<open>isaacLabData\<close> (the JSON snapshot), \<open>isaacLabPasswords\<close>
  (the email to password object), \<open>currentUser\<close> (the session marker) and
  \<open>lastFirebaseSync\<close>. \<open>None\<close> is a slot that is absent, empty or does not parse:
  \<open>getData\<close> and \<open>getUserPasswords\<close> treat the three alike. Writes to
  \<open>localStorage\<close> succeed.
\<close>

record world =
  dataSlot :: "SystemData option"
  passwordSlot :: "(string \<rightharpoonup> string) option"
  currentUserSlot :: "User option"
  lastSyncSlot :: "int option"
  tick :: nat

definition now :: "env \<Rightarrow> world \<Rightarrow> int \<times> world" where
  "now e w = (clock e (tick w), w\<lparr>tick := Suc (tick w)\<rparr>)"

definition mathRandom :: "env \<Rightarrow> world \<Rightarrow> string \<times> world" where
  "mathRandom e w = (random e (tick w), w\<lparr>tick := Suc (tick w)\<rparr>)"

section \<open>Strings and arrays of the host language\<close>

definition digit_char :: "nat \<Rightarrow> char" where
  "digit_char n = ''0123456789'' ! (n mod 10)"

function string_of_nat :: "nat \<Rightarrow> string" where
  "string_of_nat n =
     (if n < 10 then [digit_char n] else string_of_nat (n div 10) @ [digit_char n])"
  by pat_completeness auto
termination
  by (relation "measure (\<lambda>n. n)") auto

declare string_of_nat.simps [simp del]

definition string_of_int :: "int \<Rightarrow> string" where
  "string_of_int i = (if i < 0 then CHR ''-'' # string_of_nat (nat (- i)) else string_of_nat (nat i))"

fun starts_with :: "string \<Rightarrow> string \<Rightarrow> bool" where
  "starts_with [] s = True"
| "starts_with (p # ps) [] = False"
| "starts_with (p # ps) (c # cs) = (p = c \<and> starts_with ps cs)"

text \<open>\<open>str_includes p s\<close> is \<open>s.includes(p)\<close>.\<close>

fun str_includes :: "string \<Rightarrow> string \<Rightarrow> bool" where
  "str_includes p [] = (p = [])"
| "str_includes p (c # cs) = (starts_with p (c # cs) \<or> str_includes p cs)"

text \<open>\<open>Array.prototype.findIndex\<close>; \<open>None\<close> is the source's \<open>-1\<close>.\<close>

fun findIndex :: "('a \<Rightarrow> bool) \<Rightarrow> 'a list \<Rightarrow> nat option" where
  "findIndex P [] = None"
| "findIndex P (x # xs) = (if P x then Some 0 else map_option Suc (findIndex P xs))"

text \<open>
  \<open>const x = xs.find(P); if (x) { mutate x }\<close>: the first element that satisfies \<open>P\<close>
  is changed in place, inside the array it was found in.
\<close>

fun update_first :: "('a \<Rightarrow> bool) \<Rightarrow> ('a \<Rightarrow> 'a) \<Rightarrow> 'a list \<Rightarrow> 'a list" where
  "update_first P f [] = []"
| "update_first P f (x # xs) = (if P x then f x # xs else x # update_first P f xs)"

text \<open>\<open>Array.prototype.join\<close>.\<close>

fun join :: "string \<Rightarrow> string list \<Rightarrow> string" where
  "join sep [] = []"
| "join sep [x] = x"
| "join sep (x # y # ys) = x @ sep @ join sep (y # ys)"

section \<open>DataService: the local store\<close>

definition adminEmail :: string where
  "adminEmail = ''admin@issacasimov.in''"

definition getDefaultData :: "env \<Rightarrow> world \<Rightarrow> SystemData \<times> world" where
  "getDefaultData e w =
     (let (t, w1) = now e w in
      (\<lparr>users =
          [\<lparr>u_id = ''admin-1'', u_name = ''Administrator'', u_email = ''admin@issacasimov.in'',
            u_role = Admin, u_rollNo = None, u_mobile = None, u_registeredAt = t,
            u_lastLoginAt = None, u_loginCount = 0, u_isActive = False\<rparr>],
        components =
          [\<lparr>c_id = ''comp-1'', c_name = ''Arduino Uno R3'', c_totalQuantity = 25,
            c_availableQuantity = 25, c_category = ''Microcontroller'',
            c_description = ''Arduino Uno R3 development board''\<rparr>],
        requests = [], notifications = [], loginSessions = []\<rparr>, w1))"

text \<open>
  \<open>getData\<close> returns the parsed snapshot when the slot holds one (a snapshot written
  before sessions existed is completed with an empty session list, which a \<open>SystemData\<close>
  always has here), and a freshly built default dataset otherwise.
\<close>

definition getData :: "env \<Rightarrow> world \<Rightarrow> SystemData \<times> world" where
  "getData e w = (case dataSlot w of Some d \<Rightarrow> (d, w) | None \<Rightarrow> getDefaultData e w)"

definition saveData :: "SystemData \<Rightarrow> world \<Rightarrow> world" where
  "saveData d w = w\<lparr>dataSlot := Some d\<rparr>"

definition getUserPasswords :: "world \<Rightarrow> (string \<rightharpoonup> string)" where
  "getUserPasswords w = (case passwordSlot w of Some m \<Rightarrow> m | None \<Rightarrow> Map.empty)"

definition setUserPassword :: "string \<Rightarrow> string \<Rightarrow> world \<Rightarrow> world" where
  "setUserPassword email password w =
     (let passwords = getUserPasswords w
      in w\<lparr>passwordSlot := Some (passwords(email \<mapsto> password))\<rparr>)"

definition verifyPassword :: "string \<Rightarrow> string \<Rightarrow> world \<Rightarrow> bool" where
  "verifyPassword email password w = (getUserPasswords w email = Some password)"

text \<open>
  \<open>addUser\<close> writes \<open>loginCount\<close> and \<open>isActive\<close> into the object it was given before it
  pushes it, so the caller's object changes too: the changed user is returned.
\<close>

definition addUser :: "env \<Rightarrow> User \<Rightarrow> world \<Rightarrow> User \<times> world" where
  "addUser e user w =
     (let (data, w1) = getData e w;
          user1 = user\<lparr>u_loginCount := 0, u_isActive := False\<rparr>
      in (user1, saveData (data\<lparr>users := users data @ [user1]\<rparr>) w1))"

definition updateUser :: "env \<Rightarrow> User \<Rightarrow> world \<Rightarrow> world" where
  "updateUser e user w =
     (let (data, w1) = getData e w in
      case findIndex (\<lambda>u. u_id u = u_id user) (users data) of
        Some i \<Rightarrow> saveData (data\<lparr>users := (users data)[i := user]\<rparr>) w1
      | None \<Rightarrow> w1)"

definition getUser :: "env \<Rightarrow> string \<Rightarrow> world \<Rightarrow> User option \<times> world" where
  "getUser e email w =
     (let (data, w1) = getData e w in (find (\<lambda>user. u_email user = email) (users data), w1))"

definition getDeviceInfo :: "env \<Rightarrow> string" where
  "getDeviceInfo e =
     (if str_includes ''Mobile'' (userAgent e) then ''Mobile Device''
      else if str_includes ''Tablet'' (userAgent e) then ''Tablet''
      else ''Desktop'')"

definition getClientIP :: string where
  "getClientIP = ''Unknown''"

definition createLoginSession :: "env \<Rightarrow> User \<Rightarrow> world \<Rightarrow> LoginSession \<times> world" where
  "createLoginSession e user w =
     (let (t_id, w1) = now e w;
          (rnd, w2) = mathRandom e w1;
          (t_login, w3) = now e w2;
          session = \<lparr>s_id = ''session-'' @ string_of_int t_id @ ''-'' @ rnd,
                     s_userId = u_id user, s_userEmail = u_email user,
                     s_userName = u_name user, s_userRole = u_role user,
                     s_loginTime = t_login, s_logoutTime = None, s_sessionDuration = None,
                     s_ipAddress = getClientIP, s_userAgent = userAgent e,
                     s_deviceInfo = getDeviceInfo e, s_isActive = True\<rparr>;
          (data, w4) = getData e w3
      in (session, saveData (data\<lparr>loginSessions := loginSessions data @ [session]\<rparr>) w4))"

text \<open>
  Lines 146 to 157 of \<open>authenticateUser\<close>: the login statistics of a user that passed
  the credential check, and the new session.
\<close>

definition recordLogin :: "env \<Rightarrow> User \<Rightarrow> world \<Rightarrow> User option \<times> world" where
  "recordLogin e user w =
     (let (t, w1) = now e w;
          user1 = user\<lparr>u_lastLoginAt := Some t, u_loginCount := u_loginCount user + 1,
                       u_isActive := True\<rparr>;
          w2 = updateUser e user1 w1;
          (session, w3) = createLoginSession e user1 w2
      in (Some user1, w3))"

text \<open>
  \<open>passwords[email] || 'ralab'\<close>: the default stands in for a missing entry and for an
  empty one, the empty string being falsy.
\<close>

definition orDefault :: "string option \<Rightarrow> string \<Rightarrow> string" where
  "orDefault v d = (case v of None \<Rightarrow> d | Some p \<Rightarrow> if p = [] then d else p)"

definition authenticateUser :: "env \<Rightarrow> string \<Rightarrow> string \<Rightarrow> world \<Rightarrow> User option \<times> world" where
  "authenticateUser e email password w =
     (let (found, w1) = getUser e email w in
      if email = ''admin@issacasimov.in'' then
        (let passwords = getUserPasswords w1;
             adminPassword = orDefault (passwords email) ''ralab'' in
         if password \<noteq> adminPassword then (None, w1)
         else (case found of
                 None \<Rightarrow>
                   (let (t, w2) = now e w1;
                        user = \<lparr>u_id = ''admin-1'', u_name = ''Administrator'',
                                u_email = ''admin@issacasimov.in'', u_role = Admin,
                                u_rollNo = None, u_mobile = None, u_registeredAt = t,
                                u_lastLoginAt = None, u_loginCount = 0, u_isActive = True\<rparr>;
                        (user1, w3) = addUser e user w2;
                        w4 = setUserPassword email ''ralab'' w3
                    in recordLogin e user1 w4)
               | Some user \<Rightarrow> recordLogin e user w1))
      else (case found of
              None \<Rightarrow> (None, w1)
            | Some user \<Rightarrow>
                if verifyPassword email password w1 then recordLogin e user w1
                else (None, w1)))"

text \<open>
  \<open>endLoginSession\<close> filters the active sessions of the user out of the array and closes
  each in place, in array order; every closed session reads the clock twice, once for
  \<open>logoutTime\<close> and once for \<open>sessionDuration\<close>. The sessions of a parsed snapshot are
  distinct objects, so closing the filtered ones in place is this traversal of the array.
\<close>

fun closeSessions :: "env \<Rightarrow> string \<Rightarrow> LoginSession list \<Rightarrow> world \<Rightarrow> LoginSession list \<times> world" where
  "closeSessions e userId [] w = ([], w)"
| "closeSessions e userId (s # ss) w =
     (if s_userId s = userId \<and> s_isActive s then
        (let (t1, w1) = now e w;
             (t2, w2) = now e w1;
             s1 = s\<lparr>s_logoutTime := Some t1, s_isActive := False,
                    s_sessionDuration := Some (t2 - s_loginTime s)\<rparr>;
             (ss1, w3) = closeSessions e userId ss w2
         in (s1 # ss1, w3))
      else (let (ss1, w1) = closeSessions e userId ss w in (s # ss1, w1)))"

definition endLoginSession :: "env \<Rightarrow> string \<Rightarrow> world \<Rightarrow> world" where
  "endLoginSession e userId w =
     (let (data, w1) = getData e w;
          (sessions1, w2) = closeSessions e userId (loginSessions data) w1;
          users1 = update_first (\<lambda>u. u_id u = userId) (\<lambda>u. u\<lparr>u_isActive := False\<rparr>) (users data)
      in saveData (data\<lparr>users := users1, loginSessions := sessions1\<rparr>) w2)"

definition getLoginSessions :: "env \<Rightarrow> world \<Rightarrow> LoginSession list \<times> world" where
  "getLoginSessions e w = (let (data, w1) = getData e w in (loginSessions data, w1))"

definition getActiveUsers :: "env \<Rightarrow> world \<Rightarrow> User list \<times> world" where
  "getActiveUsers e w = (let (data, w1) = getData e w in (filter u_isActive (users data), w1))"

definition getComponents :: "env \<Rightarrow> world \<Rightarrow> Component list \<times> world" where
  "getComponents e w = (let (data, w1) = getData e w in (components data, w1))"

definition updateComponent :: "env \<Rightarrow> Component \<Rightarrow> world \<Rightarrow> world" where
  "updateComponent e component w =
     (let (data, w1) = getData e w in
      case findIndex (\<lambda>c. c_id c = c_id component) (components data) of
        Some i \<Rightarrow> saveData (data\<lparr>components := (components data)[i := component]\<rparr>) w1
      | None \<Rightarrow> w1)"

definition addComponent :: "env \<Rightarrow> Component \<Rightarrow> world \<Rightarrow> world" where
  "addComponent e component w =
     (let (data, w1) = getData e w
      in saveData (data\<lparr>components := components data @ [component]\<rparr>) w1)"

definition deleteComponent :: "env \<Rightarrow> string \<Rightarrow> world \<Rightarrow> world" where
  "deleteComponent e componentId w =
     (let (data, w1) = getData e w
      in saveData (data\<lparr>components := filter (\<lambda>c. c_id c \<noteq> componentId) (components data)\<rparr>) w1)"

definition addRequest :: "env \<Rightarrow> BorrowRequest \<Rightarrow> world \<Rightarrow> world" where
  "addRequest e request w =
     (let (data, w1) = getData e w
      in saveData (data\<lparr>requests := requests data @ [request]\<rparr>) w1)"

definition updateRequest :: "env \<Rightarrow> BorrowRequest \<Rightarrow> world \<Rightarrow> world" where
  "updateRequest e request w =
     (let (data, w1) = getData e w in
      case findIndex (\<lambda>r. r_id r = r_id request) (requests data) of
        Some i \<Rightarrow> saveData (data\<lparr>requests := (requests data)[i := request]\<rparr>) w1
      | None \<Rightarrow> w1)"

definition getRequests :: "env \<Rightarrow> world \<Rightarrow> BorrowRequest list \<times> world" where
  "getRequests e w = (let (data, w1) = getData e w in (requests data, w1))"

definition getUserRequests :: "env \<Rightarrow> string \<Rightarrow> world \<Rightarrow> BorrowRequest list \<times> world" where
  "getUserRequests e userId w =
     (let (data, w1) = getData e w in (filter (\<lambda>r. r_studentId r = userId) (requests data), w1))"

definition addNotification :: "env \<Rightarrow> Notification \<Rightarrow> world \<Rightarrow> world" where
  "addNotification e notification w =
     (let (data, w1) = getData e w
      in saveData (data\<lparr>notifications := notifications data @ [notification]\<rparr>) w1)"

definition getUserNotifications :: "env \<Rightarrow> string \<Rightarrow> world \<Rightarrow> Notification list \<times> world" where
  "getUserNotifications e userId w =
     (let (data, w1) = getData e w
      in (filter (\<lambda>n. n_userId n = userId) (notifications data), w1))"

definition markNotificationAsRead :: "env \<Rightarrow> string \<Rightarrow> world \<Rightarrow> world" where
  "markNotificationAsRead e notificationId w =
     (let (data, w1) = getData e w in
      case find (\<lambda>n. n_id n = notificationId) (notifications data) of
        Some notification \<Rightarrow>
          saveData (data\<lparr>notifications :=
            update_first (\<lambda>n. n_id n = notificationId) (\<lambda>n. n\<lparr>n_read := True\<rparr>) (notifications data)\<rparr>) w1
      | None \<Rightarrow> w1)"

definition getSystemStats :: "env \<Rightarrow> world \<Rightarrow> SystemStats \<times> world" where
  "getSystemStats e w =
     (let (data, w1) = getData e w;
          (t, w2) = now e w1;
          overdue = filter (\<lambda>r. r_status r = Approved \<and> r_dueDate r < t) (requests data)
      in (\<lparr>totalUsers = length (users data),
           activeUsers = length (filter u_isActive (users data)),
           totalLogins = foldl (\<lambda>sum u. sum + u_loginCount u) 0 (users data),
           onlineUsers = length (filter s_isActive (loginSessions data)),
           totalRequests = length (requests data),
           pendingRequests = length (filter (\<lambda>r. r_status r = Pending) (requests data)),
           totalComponents = length (components data),
           overdueItems = length overdue\<rparr>, w2))"

subsection \<open>The login-session report\<close>

definition role_string :: "Role \<Rightarrow> string" where
  "role_string r = (case r of Student \<Rightarrow> ''student'' | Admin \<Rightarrow> ''admin'')"

definition csvHeaders :: "string list" where
  "csvHeaders =
     [''Login Time'', ''Logout Time'', ''User Name'', ''User Email'', ''Role'', ''Device Info'',
      ''Session Duration (minutes)'', ''Status'']"

text \<open>
  \<open>Math.round(d / 60000)\<close> for a whole number of milliseconds \<open>d\<close>: the nearest
  integer, a half rounding up, which is \<open>(d + 30000) div 60000\<close> with the flooring
  division of \<open>int\<close>. The conditional of the source tests the duration for truthiness, so
  a missing duration and a duration of zero both print \<open>Active\<close>.
\<close>

definition roundMinutes :: "int \<Rightarrow> int" where
  "roundMinutes d = (d + 30000) div 60000"

definition durationCell :: "int option \<Rightarrow> string" where
  "durationCell d =
     (case d of None \<Rightarrow> ''Active''
      | Some ms \<Rightarrow> if ms = 0 then ''Active'' else string_of_int (roundMinutes ms))"

definition csvRow :: "env \<Rightarrow> LoginSession \<Rightarrow> string list" where
  "csvRow e session =
     [toLocaleString e (s_loginTime session),
      (case s_logoutTime session of Some t \<Rightarrow> toLocaleString e t | None \<Rightarrow> ''Active''),
      s_userName session,
      s_userEmail session,
      role_string (s_userRole session),
      orDefault (Some (s_deviceInfo session)) ''Unknown'',
      durationCell (s_sessionDuration session),
      (if s_isActive session then ''Active'' else ''Ended'')]"

definition quoteCell :: "string \<Rightarrow> string" where
  "quoteCell cell = CHR 0x22 # cell @ [CHR 0x22]"

definition csvLine :: "string list \<Rightarrow> string" where
  "csvLine row = join '','' (map quoteCell row)"

definition exportLoginSessionsCSV :: "env \<Rightarrow> world \<Rightarrow> string \<times> world" where
  "exportLoginSessionsCSV e w =
     (let (sessions, w1) = getLoginSessions e w;
          rows = map (csvRow e) sessions
      in (join [CHR 0x0A] (map csvLine (csvHeaders # rows)), w1))"


section \<open>HybridDataService: the facade over the remote and the local store\<close>

text \<open>
  A call of the remote adapter either returns or throws; every method of the adapter
  rethrows what it catches. The facade does not see the remote store, so what a remote
  call does is a parameter of each operation: its outcome, were the call made.
  A computation that may throw returns its outcome together with the world it leaves.
\<close>

datatype error = RemoteError string

type_synonym 'a remote = "error + 'a"

type_synonym 'a result = "(error + 'a) \<times> world"

definition bindE :: "'a result \<Rightarrow> ('a \<Rightarrow> world \<Rightarrow> 'b result) \<Rightarrow> 'b result" where
  "bindE m k = (case m of (Inl err, w) \<Rightarrow> (Inl err, w) | (Inr v, w) \<Rightarrow> k v w)"

definition try_catch :: "'a result \<Rightarrow> (error \<Rightarrow> world \<Rightarrow> 'a result) \<Rightarrow> 'a result" where
  "try_catch m h = (case m of (Inl err, w) \<Rightarrow> h err w | (Inr v, w) \<Rightarrow> (Inr v, w))"

record facade =
  useFirebase :: bool
  isOnline :: bool

text \<open>\<open>firebaseService.syncToLocal\<close>: the five collections are read, then both slots are written.\<close>

definition syncToLocal :: "env \<Rightarrow> SystemData remote \<Rightarrow> world \<Rightarrow> unit result" where
  "syncToLocal e r w =
     bindE (r, w) (\<lambda>systemData w1.
       let w2 = w1\<lparr>dataSlot := Some systemData\<rparr>;
           (t, w3) = now e w2
       in (Inr (), w3\<lparr>lastSyncSlot := Some t\<rparr>))"

definition initializeFirebase ::
  "facade \<Rightarrow> env \<Rightarrow> unit remote \<Rightarrow> SystemData remote \<Rightarrow> world \<Rightarrow> facade result" where
  "initializeFirebase f e r_init r_sync w =
     try_catch
       (if isOnline f then
          bindE (r_init, w) (\<lambda>u w1. bindE (syncToLocal e r_sync w1) (\<lambda>u w2. (Inr f, w2)))
        else (Inr f, w))
       (\<lambda>err w1. (Inr (f\<lparr>useFirebase := False\<rparr>), w1))"

definition syncWhenOnline :: "facade \<Rightarrow> env \<Rightarrow> SystemData remote \<Rightarrow> world \<Rightarrow> unit result" where
  "syncWhenOnline f e r w =
     (if isOnline f \<and> useFirebase f then
        try_catch (syncToLocal e r w) (\<lambda>err w1. (Inr (), w1))
      else (Inr (), w))"

text \<open>The two listeners of \<open>setupOnlineListener\<close>.\<close>

definition onOnline :: "facade \<Rightarrow> env \<Rightarrow> SystemData remote \<Rightarrow> world \<Rightarrow> facade result" where
  "onOnline f e r w =
     (let f1 = f\<lparr>isOnline := True\<rparr>
      in bindE (syncWhenOnline f1 e r w) (\<lambda>u w1. (Inr f1, w1)))"

definition onOffline :: "facade \<Rightarrow> facade" where
  "onOffline f = f\<lparr>isOnline := False\<rparr>"

subsection \<open>Write operations\<close>

definition hybrid_addUser :: "facade \<Rightarrow> env \<Rightarrow> string remote \<Rightarrow> User \<Rightarrow> world \<Rightarrow> User result" where
  "hybrid_addUser f e r user w =
     try_catch
       (bindE
          (if isOnline f \<and> useFirebase f then
             bindE (r, w) (\<lambda>firebaseId w1. (Inr (user\<lparr>u_id := firebaseId\<rparr>), w1))
           else (Inr user, w))
          (\<lambda>user1 w1. let (user2, w2) = addUser e user1 w1 in (Inr user2, w2)))
       (\<lambda>err w1. let (user2, w2) = addUser e user w1 in (Inr user2, w2))"

definition hybrid_updateUser :: "facade \<Rightarrow> env \<Rightarrow> unit remote \<Rightarrow> User \<Rightarrow> world \<Rightarrow> unit result" where
  "hybrid_updateUser f e r user w =
     try_catch
       (bindE (if isOnline f \<and> useFirebase f then (r, w) else (Inr (), w))
          (\<lambda>u w1. (Inr (), updateUser e user w1)))
       (\<lambda>err w1. (Inr (), updateUser e user w1))"

definition hybrid_updateComponent ::
  "facade \<Rightarrow> env \<Rightarrow> unit remote \<Rightarrow> Component \<Rightarrow> world \<Rightarrow> unit result" where
  "hybrid_updateComponent f e r component w =
     try_catch
       (bindE (if isOnline f \<and> useFirebase f then (r, w) else (Inr (), w))
          (\<lambda>u w1. (Inr (), updateComponent e component w1)))
       (\<lambda>err w1. (Inr (), updateComponent e component w1))"

definition hybrid_addComponent ::
  "facade \<Rightarrow> env \<Rightarrow> string remote \<Rightarrow> Component \<Rightarrow> world \<Rightarrow> Component result" where
  "hybrid_addComponent f e r component w =
     try_catch
       (bindE
          (if isOnline f \<and> useFirebase f then
             bindE (r, w) (\<lambda>firebaseId w1. (Inr (component\<lparr>c_id := firebaseId\<rparr>), w1))
           else (Inr component, w))
          (\<lambda>component1 w1. (Inr component1, addComponent e component1 w1)))
       (\<lambda>err w1. (Inr component, addComponent e component w1))"

definition hybrid_addRequest ::
  "facade \<Rightarrow> env \<Rightarrow> string remote \<Rightarrow> BorrowRequest \<Rightarrow> world \<Rightarrow> BorrowRequest result" where
  "hybrid_addRequest f e r request w =
     try_catch
       (bindE
          (if isOnline f \<and> useFirebase f then
             bindE (r, w) (\<lambda>firebaseId w1. (Inr (request\<lparr>r_id := firebaseId\<rparr>), w1))
           else (Inr request, w))
          (\<lambda>request1 w1. (Inr request1, addRequest e request1 w1)))
       (\<lambda>err w1. (Inr request, addRequest e request w1))"

definition hybrid_updateRequest ::
  "facade \<Rightarrow> env \<Rightarrow> unit remote \<Rightarrow> BorrowRequest \<Rightarrow> world \<Rightarrow> unit result" where
  "hybrid_updateRequest f e r request w =
     try_catch
       (bindE (if isOnline f \<and> useFirebase f then (r, w) else (Inr (), w))
          (\<lambda>u w1. (Inr (), updateRequest e request w1)))
       (\<lambda>err w1. (Inr (), updateRequest e request w1))"

definition hybrid_addNotification ::
  "facade \<Rightarrow> env \<Rightarrow> string remote \<Rightarrow> Notification \<Rightarrow> world \<Rightarrow> Notification result" where
  "hybrid_addNotification f e r notification w =
     try_catch
       (bindE
          (if isOnline f \<and> useFirebase f then
             bindE (r, w) (\<lambda>firebaseId w1. (Inr (notification\<lparr>n_id := firebaseId\<rparr>), w1))
           else (Inr notification, w))
          (\<lambda>notification1 w1. (Inr notification1, addNotification e notification1 w1)))
       (\<lambda>err w1. (Inr notification, addNotification e notification w1))"

definition hybrid_markNotificationAsRead ::
  "facade \<Rightarrow> env \<Rightarrow> unit remote \<Rightarrow> string \<Rightarrow> world \<Rightarrow> unit result" where
  "hybrid_markNotificationAsRead f e r notificationId w =
     try_catch
       (bindE (if isOnline f \<and> useFirebase f then (r, w) else (Inr (), w))
          (\<lambda>u w1. (Inr (), markNotificationAsRead e notificationId w1)))
       (\<lambda>err w1. (Inr (), markNotificationAsRead e notificationId w1))"

text \<open>The session is written to the local store first; only the returned object takes the remote id.\<close>

definition hybrid_createLoginSession ::
  "facade \<Rightarrow> env \<Rightarrow> string remote \<Rightarrow> User \<Rightarrow> world \<Rightarrow> LoginSession result" where
  "hybrid_createLoginSession f e r user w =
     (let (session, w1) = createLoginSession e user w in
      try_catch
        (if isOnline f \<and> useFirebase f then
           bindE (r, w1) (\<lambda>firebaseId w2. (Inr (session\<lparr>s_id := firebaseId\<rparr>), w2))
         else (Inr session, w1))
        (\<lambda>err w2. (Inr session, w2)))"

text \<open>
  The remote half of \<open>endLoginSession\<close>: one \<open>updateLoginSession\<close> per active remote session
  of the user, each after two reads of the clock for its payload; \<open>upd k\<close> is the outcome
  of the \<open>k\<close>-th update. The first update that throws ends the loop.
\<close>

fun remoteCloseSessions ::
  "env \<Rightarrow> (nat \<Rightarrow> unit remote) \<Rightarrow> nat \<Rightarrow> LoginSession list \<Rightarrow> world \<Rightarrow> unit result" where
  "remoteCloseSessions e upd k [] w = (Inr (), w)"
| "remoteCloseSessions e upd k (s # ss) w =
     (let (t1, w1) = now e w;
          (t2, w2) = now e w1
      in bindE (upd k, w2) (\<lambda>u w3. remoteCloseSessions e upd (Suc k) ss w3))"

definition hybrid_endLoginSession ::
  "facade \<Rightarrow> env \<Rightarrow> LoginSession list remote \<Rightarrow> (nat \<Rightarrow> unit remote) \<Rightarrow> string \<Rightarrow> world \<Rightarrow> unit result" where
  "hybrid_endLoginSession f e r_all upd userId w =
     try_catch
       (bindE
          (if isOnline f \<and> useFirebase f then
             bindE (r_all, w) (\<lambda>sessions w1.
               remoteCloseSessions e upd 0
                 (filter (\<lambda>s. s_userId s = userId \<and> s_isActive s) sessions) w1)
           else (Inr (), w))
          (\<lambda>u w1. (Inr (), endLoginSession e userId w1)))
       (\<lambda>err w1. (Inr (), endLoginSession e userId w1))"

subsection \<open>Read operations\<close>

text \<open>
  Each read returns from inside its \<open>try\<close> block when the remote answer is usable; the
  block's value is \<open>Some\<close> of that answer, or \<open>None\<close> when control leaves the block
  without returning.
\<close>

definition hybrid_getUser ::
  "facade \<Rightarrow> env \<Rightarrow> User option remote \<Rightarrow> string \<Rightarrow> world \<Rightarrow> User option result" where
  "hybrid_getUser f e r email w =
     bindE
       (try_catch
          (if isOnline f \<and> useFirebase f then
             bindE (r, w) (\<lambda>firebaseUser w1. (Inr firebaseUser, w1))
           else (Inr None, w))
          (\<lambda>err w1. (Inr None, w1)))
       (\<lambda>early w1. case early of
           Some firebaseUser \<Rightarrow> (Inr (Some firebaseUser), w1)
         | None \<Rightarrow> (let (found, w2) = getUser e email w1 in (Inr found, w2)))"

definition nonEmpty :: "'a list \<Rightarrow> 'a list option" where
  "nonEmpty xs = (if length xs > 0 then Some xs else None)"

definition hybrid_getComponents ::
  "facade \<Rightarrow> env \<Rightarrow> Component list remote \<Rightarrow> world \<Rightarrow> Component list result" where
  "hybrid_getComponents f e r w =
     bindE
       (try_catch
          (if isOnline f \<and> useFirebase f then
             bindE (r, w) (\<lambda>firebaseComponents w1. (Inr (nonEmpty firebaseComponents), w1))
           else (Inr None, w))
          (\<lambda>err w1. (Inr None, w1)))
       (\<lambda>early w1. case early of
           Some firebaseComponents \<Rightarrow> (Inr firebaseComponents, w1)
         | None \<Rightarrow> (let (cs, w2) = getComponents e w1 in (Inr cs, w2)))"

definition hybrid_getRequests ::
  "facade \<Rightarrow> env \<Rightarrow> BorrowRequest list remote \<Rightarrow> world \<Rightarrow> BorrowRequest list result" where
  "hybrid_getRequests f e r w =
     bindE
       (try_catch
          (if isOnline f \<and> useFirebase f then
             bindE (r, w) (\<lambda>firebaseRequests w1. (Inr (nonEmpty firebaseRequests), w1))
           else (Inr None, w))
          (\<lambda>err w1. (Inr None, w1)))
       (\<lambda>early w1. case early of
           Some firebaseRequests \<Rightarrow> (Inr firebaseRequests, w1)
         | None \<Rightarrow> (let (rs, w2) = getRequests e w1 in (Inr rs, w2)))"

definition hybrid_getUserRequests ::
  "facade \<Rightarrow> env \<Rightarrow> BorrowRequest list remote \<Rightarrow> string \<Rightarrow> world \<Rightarrow> BorrowRequest list result" where
  "hybrid_getUserRequests f e r userId w =
     bindE
       (try_catch
          (if isOnline f \<and> useFirebase f then
             bindE (r, w) (\<lambda>firebaseRequests w1. (Inr (nonEmpty firebaseRequests), w1))
           else (Inr None, w))
          (\<lambda>err w1. (Inr None, w1)))
       (\<lambda>early w1. case early of
           Some firebaseRequests \<Rightarrow> (Inr firebaseRequests, w1)
         | None \<Rightarrow> (let (rs, w2) = getUserRequests e userId w1 in (Inr rs, w2)))"

definition hybrid_getUserNotifications ::
  "facade \<Rightarrow> env \<Rightarrow> Notification list remote \<Rightarrow> string \<Rightarrow> world \<Rightarrow> Notification list result" where
  "hybrid_getUserNotifications f e r userId w =
     bindE
       (try_catch
          (if isOnline f \<and> useFirebase f then
             bindE (r, w) (\<lambda>firebaseNotifications w1. (Inr (nonEmpty firebaseNotifications), w1))
           else (Inr None, w))
          (\<lambda>err w1. (Inr None, w1)))
       (\<lambda>early w1. case early of
           Some firebaseNotifications \<Rightarrow> (Inr firebaseNotifications, w1)
         | None \<Rightarrow> (let (ns, w2) = getUserNotifications e userId w1 in (Inr ns, w2)))"

text \<open>
  \<open>authenticateUser\<close>: the remote sign-in answers with a remote identity or \<open>null\<close>
  (\<open>Some ()\<close> or \<open>None\<close>), then the profile is fetched by email.
\<close>

definition hybrid_authenticateUser ::
  "facade \<Rightarrow> env \<Rightarrow> unit option remote \<Rightarrow> User option remote \<Rightarrow> string \<Rightarrow> string \<Rightarrow> world
     \<Rightarrow> User option result" where
  "hybrid_authenticateUser f e r_signIn r_get email password w =
     bindE
       (try_catch
          (if isOnline f \<and> useFirebase f then
             bindE (r_signIn, w) (\<lambda>firebaseUser w1.
               case firebaseUser of
                 None \<Rightarrow> (Inr None, w1)
               | Some fu \<Rightarrow>
                   bindE (r_get, w1) (\<lambda>userData w2.
                     case userData of
                       None \<Rightarrow> (Inr None, w2)
                     | Some ud \<Rightarrow> (Inr (Some ud), updateUser e ud w2)))
           else (Inr None, w))
          (\<lambda>err w1. (Inr None, w1)))
       (\<lambda>early w1. case early of
           Some userData \<Rightarrow> (Inr (Some userData), w1)
         | None \<Rightarrow> (let (found, w2) = authenticateUser e email password w1 in (Inr found, w2)))"

section \<open>AuthContext: login and registration\<close>

text \<open>
  \<open>login\<close>: the facade authenticates; a user that comes back is written to the session
  marker and the caller is told \<open>true\<close>. There is no \<open>try\<close> around the call.
\<close>

definition login ::
  "facade \<Rightarrow> env \<Rightarrow> unit option remote \<Rightarrow> User option remote \<Rightarrow> string \<Rightarrow> string \<Rightarrow> world
     \<Rightarrow> bool result" where
  "login f e r_signIn r_get email password w =
     bindE (hybrid_authenticateUser f e r_signIn r_get email password w) (\<lambda>authenticatedUser w1.
       case authenticatedUser of
         Some au \<Rightarrow> (Inr True, w1\<lparr>currentUserSlot := Some au\<rparr>)
       | None \<Rightarrow> (Inr False, w1))"

record RegisterData =
  rd_name :: string
  rd_email :: string
  rd_rollNumber :: string
  rd_mobile :: string
  rd_password :: string

text \<open>The outcomes of the remote calls a registration can make, in the order it makes them.\<close>

record registerRemote =
  rr_getUserByEmail :: "User option remote"
  rr_signUp :: "unit remote"
  rr_createUser :: "string remote"
  rr_createLoginSession :: "string remote"
  rr_createNotification :: "string remote"

definition welcomeTitle :: string where
  "welcomeTitle = ''Welcome to Isaac Asimov Lab! '' @ [CHR 0xF0, CHR 0x9F, CHR 0x8E, CHR 0x89]"

definition welcomeMessage :: string where
  "welcomeMessage =
     ''Your account has been created successfully. You can now request components for your robotics projects.''"

text \<open>
  \<open>register\<close>. The component state set by \<open>setUser\<close> is read by no service and is left
  out; the session marker \<open>currentUser\<close> is the slot of the world. The object \<open>newUser\<close>
  is shared with the facade, which writes into it: what is used after \<open>addUser\<close> is the
  object as \<open>addUser\<close> left it.
\<close>

definition register :: "facade \<Rightarrow> env \<Rightarrow> registerRemote \<Rightarrow> RegisterData \<Rightarrow> world \<Rightarrow> bool result" where
  "register f e rr data w =
     try_catch
       (bindE (hybrid_getUser f e (rr_getUserByEmail rr) (rd_email data) w) (\<lambda>existingUser w1.
          case existingUser of
            Some u \<Rightarrow> (Inr False, w1)
          | None \<Rightarrow>
              bindE (try_catch (rr_signUp rr, w1) (\<lambda>firebaseError w2. (Inr (), w2))) (\<lambda>u w2.
                let (t_id, w3) = now e w2;
                    (t_reg, w4) = now e w3;
                    (t_last, w5) = now e w4;
                    newUser = \<lparr>u_id = ''user-'' @ string_of_int t_id, u_name = rd_name data,
                               u_email = rd_email data, u_role = Student,
                               u_rollNo = Some (rd_rollNumber data), u_mobile = Some (rd_mobile data),
                               u_registeredAt = t_reg, u_lastLoginAt = Some t_last,
                               u_loginCount = 1, u_isActive = True\<rparr>
                in bindE (hybrid_addUser f e (rr_createUser rr) newUser w5) (\<lambda>newUser1 w6.
                   bindE (hybrid_createLoginSession f e (rr_createLoginSession rr) newUser1 w6)
                     (\<lambda>session w7.
                        let w8 = setUserPassword (rd_email data) (rd_password data) w7;
                            w9 = w8\<lparr>currentUserSlot := Some newUser1\<rparr>;
                            (t_nid, w10) = now e w9;
                            (t_created, w11) = now e w10
                        in bindE
                             (hybrid_addNotification f e (rr_createNotification rr)
                                \<lparr>n_id = ''notif-'' @ string_of_int t_nid, n_userId = u_id newUser1,
                                  n_title = welcomeTitle, n_message = welcomeMessage,
                                  n_type = ''success'', n_read = False, n_createdAt = t_created\<rparr>
                                w11)
                             (\<lambda>n w12. (Inr True, w12)))))))
       (\<lambda>err w1. (Inr False, w1))"

section \<open>The facade as a state machine\<close>

text \<open>
  Everything that can happen to the one facade of a process after its construction: the
  two connectivity signals, the completion of \<open>initializeFirebase\<close>, and a call of any
  public method. Each event carries the outcomes of the remote calls it may make.
\<close>

datatype event =
    EvOnline "SystemData remote"
  | EvOffline
  | EvInitializeFirebase "unit remote" "SystemData remote"
  | EvAddUser "string remote" User
  | EvUpdateUser "unit remote" User
  | EvGetUser "User option remote" string
  | EvAuthenticateUser "unit option remote" "User option remote" string string
  | EvGetComponents "Component list remote"
  | EvUpdateComponent "unit remote" Component
  | EvAddComponent "string remote" Component
  | EvAddRequest "string remote" BorrowRequest
  | EvUpdateRequest "unit remote" BorrowRequest
  | EvGetRequests "BorrowRequest list remote"
  | EvGetUserRequests "BorrowRequest list remote" string
  | EvAddNotification "string remote" Notification
  | EvGetUserNotifications "Notification list remote" string
  | EvMarkNotificationAsRead "unit remote" string
  | EvCreateLoginSession "string remote" User
  | EvEndLoginSession "LoginSession list remote" "nat \<Rightarrow> unit remote" string
  | EvGetLoginSessions
  | EvGetActiveUsers
  | EvGetSystemStats
  | EvExportLoginSessionsCSV
  | EvGetData
  | EvSetUserPassword string string
  | EvGetConnectionStatus

text \<open>A method that only reads the two flags leaves the facade as it is.\<close>

definition keeping :: "facade \<Rightarrow> 'a result \<Rightarrow> facade result" where
  "keeping f m = bindE m (\<lambda>v w. (Inr f, w))"

fun step :: "env \<Rightarrow> event \<Rightarrow> facade \<Rightarrow> world \<Rightarrow> facade result" where
  "step e (EvOnline r) f w = onOnline f e r w"
| "step e EvOffline f w = (Inr (onOffline f), w)"
| "step e (EvInitializeFirebase r_init r_sync) f w = initializeFirebase f e r_init r_sync w"
| "step e (EvAddUser r user) f w = keeping f (hybrid_addUser f e r user w)"
| "step e (EvUpdateUser r user) f w = keeping f (hybrid_updateUser f e r user w)"
| "step e (EvGetUser r email) f w = keeping f (hybrid_getUser f e r email w)"
| "step e (EvAuthenticateUser r_signIn r_get email password) f w =
     keeping f (hybrid_authenticateUser f e r_signIn r_get email password w)"
| "step e (EvGetComponents r) f w = keeping f (hybrid_getComponents f e r w)"
| "step e (EvUpdateComponent r component) f w = keeping f (hybrid_updateComponent f e r component w)"
| "step e (EvAddComponent r component) f w = keeping f (hybrid_addComponent f e r component w)"
| "step e (EvAddRequest r request) f w = keeping f (hybrid_addRequest f e r request w)"
| "step e (EvUpdateRequest r request) f w = keeping f (hybrid_updateRequest f e r request w)"
| "step e (EvGetRequests r) f w = keeping f (hybrid_getRequests f e r w)"
| "step e (EvGetUserRequests r userId) f w = keeping f (hybrid_getUserRequests f e r userId w)"
| "step e (EvAddNotification r notification) f w =
     keeping f (hybrid_addNotification f e r notification w)"
| "step e (EvGetUserNotifications r userId) f w =
     keeping f (hybrid_getUserNotifications f e r userId w)"
| "step e (EvMarkNotificationAsRead r notificationId) f w =
     keeping f (hybrid_markNotificationAsRead f e r notificationId w)"
| "step e (EvCreateLoginSession r user) f w = keeping f (hybrid_createLoginSession f e r user w)"
| "step e (EvEndLoginSession r_all upd userId) f w =
     keeping f (hybrid_endLoginSession f e r_all upd userId w)"
| "step e EvGetLoginSessions f w = (Inr f, snd (getLoginSessions e w))"
| "step e EvGetActiveUsers f w = (Inr f, snd (getActiveUsers e w))"
| "step e EvGetSystemStats f w = (Inr f, snd (getSystemStats e w))"
| "step e EvExportLoginSessionsCSV f w = (Inr f, snd (exportLoginSessionsCSV e w))"
| "step e EvGetData f w = (Inr f, snd (getData e w))"
| "step e (EvSetUserPassword email password) f w = (Inr f, setUserPassword email password w)"
| "step e EvGetConnectionStatus f w = (Inr f, w)"

fun run :: "env \<Rightarrow> event list \<Rightarrow> facade \<Rightarrow> world \<Rightarrow> facade result" where
  "run e [] f w = (Inr f, w)"
| "run e (ev # evs) f w = bindE (step e ev f w) (\<lambda>f1 w1. run e evs f1 w1)"

section \<open>Notions for stating the properties\<close>

text \<open>What \<open>localStorage\<close> holds: the four slots, without the count of clock reads.\<close>

definition persisted ::
  "world \<Rightarrow> SystemData option \<times> (string \<rightharpoonup> string) option \<times> User option \<times> int option" where
  "persisted w = (dataSlot w, passwordSlot w, currentUserSlot w, lastSyncSlot w)"

text \<open>
  The sessions and the users of the snapshot that a load returns. The default dataset
  has no session, so the sessions are those of the slot; its one user carries the time
  of the load in \<open>registeredAt\<close>, so the users are given with the environment.
\<close>

definition storedSessions :: "world \<Rightarrow> LoginSession list" where
  "storedSessions w = (case dataSlot w of Some d \<Rightarrow> loginSessions d | None \<Rightarrow> [])"

definition storedUsers :: "env \<Rightarrow> world \<Rightarrow> User list" where
  "storedUsers e w = users (fst (getData e w))"

text \<open>
  The body of the loop of \<open>endLoginSession\<close>, for a session closed when the clock had been
  read \<open>k\<close> times: \<open>logoutTime\<close> is read \<open>k\<close>, the duration is taken from read \<open>k + 1\<close>.
\<close>

definition closedAt :: "env \<Rightarrow> nat \<Rightarrow> LoginSession \<Rightarrow> LoginSession" where
  "closedAt e k s =
     s\<lparr>s_logoutTime := Some (clock e k), s_isActive := False,
       s_sessionDuration := Some (clock e (Suc k) - s_loginTime s)\<rparr>"


text \<open>
  The id an entity is stored under by an add operation of the facade: the id the remote
  store assigned when the remote write was made and returned, the entity's own id otherwise.
\<close>

definition storedId :: "facade \<Rightarrow> string remote \<Rightarrow> string \<Rightarrow> string" where
  "storedId f r own =
     (if isOnline f \<and> useFirebase f then (case r of Inr firebaseId \<Rightarrow> firebaseId | Inl err \<Rightarrow> own)
      else own)"

text \<open>What the facade returns when it answers from the local store.\<close>

definition ok :: "'a \<times> world \<Rightarrow> 'a result" where
  "ok p = (Inr (fst p), snd p)"

section \<open>Concrete inputs\<close>

text \<open>A clock that advances one second per read, and a browser on a desktop.\<close>

definition env0 :: env where
  "env0 = \<lparr>clock = (\<lambda>k. 1700000000000 + 1000 * int k), random = (\<lambda>k. ''k3x9q2m1z''),
            userAgent = ''Mozilla/5.0 (X11; Linux x86_64)'',
            toLocaleString = (\<lambda>t. string_of_int t)\<rparr>"

text \<open>The first run: nothing persisted.\<close>

definition world0 :: world where
  "world0 = \<lparr>dataSlot = None, passwordSlot = None, currentUserSlot = None, lastSyncSlot = None,
              tick = 0\<rparr>"

definition offlineFacade :: facade where
  "offlineFacade = \<lparr>useFirebase = True, isOnline = False\<rparr>"

definition onlineFacade :: facade where
  "onlineFacade = \<lparr>useFirebase = True, isOnline = True\<rparr>"

definition degradedFacade :: facade where
  "degradedFacade = \<lparr>useFirebase = False, isOnline = True\<rparr>"

definition remoteDown :: "'a remote" where
  "remoteDown = Inl (RemoteError ''unavailable'')"

definition aliceData :: RegisterData where
  "aliceData = \<lparr>rd_name = ''Alice'', rd_email = ''alice@example.org'', rd_rollNumber = ''21R001'',
                 rd_mobile = ''5550100'', rd_password = ''s3cret''\<rparr>"

definition allDown :: registerRemote where
  "allDown = \<lparr>rr_getUserByEmail = remoteDown, rr_signUp = remoteDown, rr_createUser = remoteDown,
               rr_createLoginSession = remoteDown, rr_createNotification = remoteDown\<rparr>"

definition allUp :: registerRemote where
  "allUp = \<lparr>rr_getUserByEmail = Inr None, rr_signUp = Inr (), rr_createUser = Inr ''fb-user-1'',
             rr_createLoginSession = Inr ''fb-session-1'', rr_createNotification = Inr ''fb-notif-1''\<rparr>"

definition activeSession :: LoginSession where
  "activeSession =
     \<lparr>s_id = ''session-1'', s_userId = ''user-1'', s_userEmail = ''alice@example.org'',
       s_userName = ''Alice'', s_userRole = Student, s_loginTime = 1700000000000,
       s_logoutTime = None, s_sessionDuration = None, s_ipAddress = ''Unknown'',
       s_userAgent = ''Mozilla/5.0 (X11; Linux x86_64)'', s_deviceInfo = ''Desktop'',
       s_isActive = True\<rparr>"

definition closedSession :: LoginSession where
  "closedSession =
     \<lparr>s_id = ''session-2'', s_userId = ''user-2'', s_userEmail = ''bob@example.org'',
       s_userName = ''Bob'', s_userRole = Student, s_loginTime = 1700000000000,
       s_logoutTime = Some 1700000125000, s_sessionDuration = Some 125000,
       s_ipAddress = ''Unknown'', s_userAgent = ''Mozilla/5.0 (X11; Linux x86_64)'',
       s_deviceInfo = ''Desktop'', s_isActive = False\<rparr>"

definition emptyData :: SystemData where
  "emptyData = \<lparr>users = [], components = [], requests = [], notifications = [],
                 loginSessions = []\<rparr>"

definition twoSessionWorld :: world where
  "twoSessionWorld =
     world0\<lparr>dataSlot := Some (emptyData\<lparr>loginSessions := [activeSession, closedSession]\<rparr>)\<rparr>"


text \<open>Entities whose id is the id of nothing stored.\<close>

definition ghostUser :: User where
  "ghostUser = \<lparr>u_id = ''ghost'', u_name = ''Ghost'', u_email = ''ghost@example.org'',
      u_role = Student, u_rollNo = None, u_mobile = None, u_registeredAt = 0,
      u_lastLoginAt = None, u_loginCount = 0, u_isActive = False\<rparr>"

definition ghostComponent :: Component where
  "ghostComponent = \<lparr>c_id = ''ghost'', c_name = ''Ghost'', c_totalQuantity = 1,
      c_availableQuantity = 1, c_category = ''None'', c_description = ''None''\<rparr>"

definition ghostRequest :: BorrowRequest where
  "ghostRequest = \<lparr>r_id = ''ghost'', r_studentId = ''ghost'', r_componentId = ''comp-1'',
      r_status = Pending, r_dueDate = 0, r_createdAt = 0\<rparr>"

text \<open>Alice as the remote store holds her, and the seeded administrator after an edit.\<close>

definition remoteAlice :: User where
  "remoteAlice = \<lparr>u_id = ''user-1699999999000'', u_name = ''Alice'', u_email = ''alice@example.org'',
      u_role = Student, u_rollNo = Some ''21R001'', u_mobile = Some ''5550100'',
      u_registeredAt = 1699999999000, u_lastLoginAt = Some 1699999999000, u_loginCount = 1,
      u_isActive = True\<rparr>"


text \<open>A connection that drops and comes back, followed by a write and a read.\<close>

definition sampleEvents :: "event list" where
  "sampleEvents =
     [EvOffline, EvOnline (Inr emptyData), EvAddUser (Inr ''fb-1'') ghostUser,
      EvGetComponents (Inr [ghostComponent]), EvOnline remoteDown]"

section \<open>Basic facts about the local store\<close>

lemma findIndex_None_iff: "findIndex P xs = None \<longleftrightarrow> (\<forall>x \<in> set xs. \<not> P x)"
  by (induction xs) auto

lemma persisted_getData: "persisted (snd (getData e w)) = persisted w"
  by (simp add: persisted_def getData_def getDefaultData_def now_def split: option.splits)

lemma getData_world0:
  "getData env0 world0 = (fst (getDefaultData env0 world0), world0\<lparr>tick := 1\<rparr>)"
  by (simp add: getData_def world0_def getDefaultData_def now_def)

section \<open>The facade's writes\<close>

lemma bindE_simps [simp]:
  "bindE (Inr v, w) k = k v w"
  "bindE (Inl err, w) k = (Inl err, w)"
  by (simp_all add: bindE_def)

lemma try_catch_simps [simp]:
  "try_catch (Inr v, w) h = (Inr v, w)"
  "try_catch (Inl err, w) h = h err w"
  by (simp_all add: try_catch_def)

lemma hybrid_addUser_local:
  "hybrid_addUser f e rn user w = ok (addUser e (user\<lparr>u_id := storedId f rn (u_id user)\<rparr>) w)"
  by (cases rn) (simp_all add: hybrid_addUser_def storedId_def split_beta ok_def)

lemma hybrid_updateUser_local:
  "hybrid_updateUser f e ru user w = (Inr (), updateUser e user w)"
  by (cases ru) (simp_all add: hybrid_updateUser_def)

lemma hybrid_addComponent_local:
  "hybrid_addComponent f e rn component w =
     (Inr (component\<lparr>c_id := storedId f rn (c_id component)\<rparr>),
      addComponent e (component\<lparr>c_id := storedId f rn (c_id component)\<rparr>) w)"
  by (cases rn) (simp_all add: hybrid_addComponent_def storedId_def)

lemma hybrid_updateComponent_local:
  "hybrid_updateComponent f e ru component w = (Inr (), updateComponent e component w)"
  by (cases ru) (simp_all add: hybrid_updateComponent_def)

lemma hybrid_addRequest_local:
  "hybrid_addRequest f e rn request w =
     (Inr (request\<lparr>r_id := storedId f rn (r_id request)\<rparr>),
      addRequest e (request\<lparr>r_id := storedId f rn (r_id request)\<rparr>) w)"
  by (cases rn) (simp_all add: hybrid_addRequest_def storedId_def)

lemma hybrid_updateRequest_local:
  "hybrid_updateRequest f e ru request w = (Inr (), updateRequest e request w)"
  by (cases ru) (simp_all add: hybrid_updateRequest_def)

lemma hybrid_addNotification_local:
  "hybrid_addNotification f e rn notification w =
     (Inr (notification\<lparr>n_id := storedId f rn (n_id notification)\<rparr>),
      addNotification e (notification\<lparr>n_id := storedId f rn (n_id notification)\<rparr>) w)"
  by (cases rn) (simp_all add: hybrid_addNotification_def storedId_def)

lemma hybrid_markNotificationAsRead_local:
  "hybrid_markNotificationAsRead f e ru notificationId w =
     (Inr (), markNotificationAsRead e notificationId w)"
  by (cases ru) (simp_all add: hybrid_markNotificationAsRead_def)

lemma hybrid_createLoginSession_local:
  "hybrid_createLoginSession f e rn user w =
     (Inr ((fst (createLoginSession e user w))
             \<lparr>s_id := storedId f rn (s_id (fst (createLoginSession e user w)))\<rparr>),
      snd (createLoginSession e user w))"
  by (cases rn) (simp_all add: hybrid_createLoginSession_def storedId_def split_beta)

text \<open>The remote half of \<open>endLoginSession\<close> reads the clock and touches nothing else.\<close>

lemma remoteCloseSessions_world:
  "\<exists>k. snd (remoteCloseSessions e upd n ss w) = w\<lparr>tick := tick w + k\<rparr>"
proof (induction ss arbitrary: n w)
  case Nil
  have "w = w\<lparr>tick := tick w + 0\<rparr>" by simp
  then show ?case by (metis remoteCloseSessions.simps(1) snd_conv)
next
  case (Cons s ss)
  let ?w2 = "w\<lparr>tick := tick w + 2\<rparr>"
  show ?case
  proof (cases "upd n")
    case (Inl err)
    then have "snd (remoteCloseSessions e upd n (s # ss) w) = ?w2"
      by (simp add: now_def)
    then show ?thesis by blast
  next
    case (Inr u)
    then have eq: "remoteCloseSessions e upd n (s # ss) w = remoteCloseSessions e upd (Suc n) ss ?w2"
      by (simp add: now_def)
    from Cons.IH [of "Suc n" ?w2] obtain k where
      "snd (remoteCloseSessions e upd (Suc n) ss ?w2) = ?w2\<lparr>tick := tick ?w2 + k\<rparr>" by blast
    then have "snd (remoteCloseSessions e upd n (s # ss) w) = w\<lparr>tick := tick w + (2 + k)\<rparr>"
      using eq by (simp add: add.assoc)
    then show ?thesis by blast
  qed
qed

lemma hybrid_endLoginSession_local:
  "\<exists>k. hybrid_endLoginSession f e r_all upd userId w =
         (Inr (), endLoginSession e userId (w\<lparr>tick := tick w + k\<rparr>))"
proof (cases "isOnline f \<and> useFirebase f")
  case False
  have "w = w\<lparr>tick := tick w + 0\<rparr>" by simp
  moreover from False
  have "hybrid_endLoginSession f e r_all upd userId w = (Inr (), endLoginSession e userId w)"
    by (auto simp add: hybrid_endLoginSession_def)
  ultimately show ?thesis by metis
next
  case True
  show ?thesis
  proof (cases r_all)
    case (Inl err)
    have "w = w\<lparr>tick := tick w + 0\<rparr>" by simp
    moreover from True Inl
    have "hybrid_endLoginSession f e r_all upd userId w = (Inr (), endLoginSession e userId w)"
      by (simp add: hybrid_endLoginSession_def)
    ultimately show ?thesis by metis
  next
    case (Inr sessions)
    let ?m = "remoteCloseSessions e upd 0
                (filter (\<lambda>s. s_userId s = userId \<and> s_isActive s) sessions) w"
    obtain k where k: "snd ?m = w\<lparr>tick := tick w + k\<rparr>"
      using remoteCloseSessions_world by blast
    from True Inr
    have "hybrid_endLoginSession f e r_all upd userId w = (Inr (), endLoginSession e userId (snd ?m))"
      by (cases ?m; cases "fst ?m") (auto simp add: hybrid_endLoginSession_def bindE_def try_catch_def)
    with k show ?thesis by metis
  qed
qed

section \<open>The facade's reads\<close>

lemma hybrid_getUser_cases:
  "hybrid_getUser f e (Inl err) email w = ok (getUser e email w)"
  "hybrid_getUser f e (Inr None) email w = ok (getUser e email w)"
  "isOnline f \<and> useFirebase f \<Longrightarrow> hybrid_getUser f e (Inr (Some u)) email w = (Inr (Some u), w)"
  "\<not> (isOnline f \<and> useFirebase f) \<Longrightarrow> hybrid_getUser f e r email w = ok (getUser e email w)"
  by (auto simp add: hybrid_getUser_def ok_def split_beta)

lemma nonEmpty_simps [simp]: "nonEmpty [] = None" "xs \<noteq> [] \<Longrightarrow> nonEmpty xs = Some xs"
  by (simp_all add: nonEmpty_def)

lemma hybrid_getComponents_cases:
  "hybrid_getComponents f e (Inl err) w = ok (getComponents e w)"
  "hybrid_getComponents f e (Inr []) w = ok (getComponents e w)"
  "isOnline f \<and> useFirebase f \<Longrightarrow> cs \<noteq> [] \<Longrightarrow> hybrid_getComponents f e (Inr cs) w = (Inr cs, w)"
  "\<not> (isOnline f \<and> useFirebase f) \<Longrightarrow> hybrid_getComponents f e r w = ok (getComponents e w)"
  by (auto simp add: hybrid_getComponents_def ok_def split_beta)

lemma hybrid_getRequests_cases:
  "hybrid_getRequests f e (Inl err) w = ok (getRequests e w)"
  "hybrid_getRequests f e (Inr []) w = ok (getRequests e w)"
  "isOnline f \<and> useFirebase f \<Longrightarrow> rs \<noteq> [] \<Longrightarrow> hybrid_getRequests f e (Inr rs) w = (Inr rs, w)"
  "\<not> (isOnline f \<and> useFirebase f) \<Longrightarrow> hybrid_getRequests f e r w = ok (getRequests e w)"
  by (auto simp add: hybrid_getRequests_def ok_def split_beta)

lemma hybrid_getUserRequests_cases:
  "hybrid_getUserRequests f e (Inl err) userId w = ok (getUserRequests e userId w)"
  "hybrid_getUserRequests f e (Inr []) userId w = ok (getUserRequests e userId w)"
  "isOnline f \<and> useFirebase f \<Longrightarrow> rs \<noteq> [] \<Longrightarrow>
     hybrid_getUserRequests f e (Inr rs) userId w = (Inr rs, w)"
  "\<not> (isOnline f \<and> useFirebase f) \<Longrightarrow>
     hybrid_getUserRequests f e r userId w = ok (getUserRequests e userId w)"
  by (auto simp add: hybrid_getUserRequests_def ok_def split_beta)

lemma hybrid_getUserNotifications_cases:
  "hybrid_getUserNotifications f e (Inl err) userId w = ok (getUserNotifications e userId w)"
  "hybrid_getUserNotifications f e (Inr []) userId w = ok (getUserNotifications e userId w)"
  "isOnline f \<and> useFirebase f \<Longrightarrow> ns \<noteq> [] \<Longrightarrow>
     hybrid_getUserNotifications f e (Inr ns) userId w = (Inr ns, w)"
  "\<not> (isOnline f \<and> useFirebase f) \<Longrightarrow>
     hybrid_getUserNotifications f e r userId w = ok (getUserNotifications e userId w)"
  by (auto simp add: hybrid_getUserNotifications_def ok_def split_beta)

text \<open>
  C2. Each of the five reads of the facade answers from the local store when the remote
  read throws, when it returns \<open>null\<close> (\<open>getUser\<close>) and when it returns an empty list (the
  list reads); when the remote read is made (the facade is online and the remote store is
  enabled) and returns a user or a non-empty list, that answer is returned as it is, and
  the local store is not read.
\<close>

theorem facade_reads_fall_back_to_local_store:
  "hybrid_getUser f e (Inl err) email w = ok (getUser e email w) \<and>
   hybrid_getUser f e (Inr None) email w = ok (getUser e email w) \<and>
   (isOnline f \<and> useFirebase f \<longrightarrow> hybrid_getUser f e (Inr (Some u)) email w = (Inr (Some u), w)) \<and>
   hybrid_getComponents f e (Inl err) w = ok (getComponents e w) \<and>
   hybrid_getComponents f e (Inr []) w = ok (getComponents e w) \<and>
   (isOnline f \<and> useFirebase f \<and> cs \<noteq> [] \<longrightarrow> hybrid_getComponents f e (Inr cs) w = (Inr cs, w)) \<and>
   hybrid_getRequests f e (Inl err) w = ok (getRequests e w) \<and>
   hybrid_getRequests f e (Inr []) w = ok (getRequests e w) \<and>
   (isOnline f \<and> useFirebase f \<and> rs \<noteq> [] \<longrightarrow> hybrid_getRequests f e (Inr rs) w = (Inr rs, w)) \<and>
   hybrid_getUserRequests f e (Inl err) userId w = ok (getUserRequests e userId w) \<and>
   hybrid_getUserRequests f e (Inr []) userId w = ok (getUserRequests e userId w) \<and>
   (isOnline f \<and> useFirebase f \<and> rs \<noteq> [] \<longrightarrow>
      hybrid_getUserRequests f e (Inr rs) userId w = (Inr rs, w)) \<and>
   hybrid_getUserNotifications f e (Inl err) userId w = ok (getUserNotifications e userId w) \<and>
   hybrid_getUserNotifications f e (Inr []) userId w = ok (getUserNotifications e userId w) \<and>
   (isOnline f \<and> useFirebase f \<and> ns \<noteq> [] \<longrightarrow>
      hybrid_getUserNotifications f e (Inr ns) userId w = (Inr ns, w))"
  by (simp add: hybrid_getUser_cases hybrid_getComponents_cases hybrid_getRequests_cases
      hybrid_getUserRequests_cases hybrid_getUserNotifications_cases)

text \<open>
  On a first run, a connected facade returns the one remote component it is given, the
  seeded component when the remote list is empty, the seeded administrator when the remote
  lookup throws, and the remote user when there is one.
\<close>

theorem facade_reads_fall_back_to_local_store_witness:
  "hybrid_getComponents onlineFacade env0 (Inr [ghostComponent]) world0 =
     (Inr [ghostComponent], world0) \<and>
   fst (hybrid_getComponents onlineFacade env0 (Inr []) world0) =
     Inr (components (fst (getDefaultData env0 world0))) \<and>
   fst (hybrid_getUser onlineFacade env0 remoteDown ''admin@issacasimov.in'' world0) =
     Inr (Some (hd (users (fst (getDefaultData env0 world0))))) \<and>
   hybrid_getUser onlineFacade env0 (Inr (Some ghostUser)) ''admin@issacasimov.in'' world0 =
     (Inr (Some ghostUser), world0)"
proof -
  note c2 = facade_reads_fall_back_to_local_store [where f = onlineFacade and e = env0
      and w = world0 and cs = "[ghostComponent]" and u = ghostUser
      and email = "''admin@issacasimov.in''" and err = "RemoteError ''unavailable''"]
  have on: "isOnline onlineFacade \<and> useFirebase onlineFacade"
    by (simp add: onlineFacade_def)
  from c2 on show ?thesis
    by (simp add: remoteDown_def ok_def getComponents_def getUser_def getData_world0
        getDefaultData_def now_def)
qed

section \<open>Authentication against the local store\<close>

lemma getUserPasswords_frame [simp]:
  "getUserPasswords (snd (now e w)) = getUserPasswords w"
  "getUserPasswords (snd (mathRandom e w)) = getUserPasswords w"
  "getUserPasswords (snd (getData e w)) = getUserPasswords w"
  "getUserPasswords (saveData d w) = getUserPasswords w"
  by (simp_all add: getUserPasswords_def now_def mathRandom_def getData_def getDefaultData_def
      saveData_def split: option.splits)

lemma passwordSlot_frame [simp]:
  "passwordSlot (snd (now e w)) = passwordSlot w"
  "passwordSlot (snd (mathRandom e w)) = passwordSlot w"
  "passwordSlot (snd (getData e w)) = passwordSlot w"
  "passwordSlot (saveData d w) = passwordSlot w"
  by (simp_all add: now_def mathRandom_def getData_def getDefaultData_def
      saveData_def split: option.splits)

lemma passwordSlot_updateUser [simp]: "passwordSlot (updateUser e u w) = passwordSlot w"
  by (simp add: updateUser_def split_beta split: option.splits)

lemma passwordSlot_addUser [simp]: "passwordSlot (snd (addUser e u w)) = passwordSlot w"
  by (simp add: addUser_def split_beta Let_def)

lemma passwordSlot_createLoginSession [simp]:
  "passwordSlot (snd (createLoginSession e u w)) = passwordSlot w"
  by (simp add: createLoginSession_def split_beta Let_def)

lemma passwordSlot_recordLogin [simp]: "passwordSlot (snd (recordLogin e u w)) = passwordSlot w"
  by (simp add: recordLogin_def split_beta Let_def)

lemma fst_recordLogin:
  "fst (recordLogin e u w) =
     Some (u\<lparr>u_lastLoginAt := Some (clock e (tick w)), u_loginCount := u_loginCount u + 1,
             u_isActive := True\<rparr>)"
  by (simp add: recordLogin_def split_beta now_def Let_def)

lemma fst_addUser: "fst (addUser e u w) = u\<lparr>u_loginCount := 0, u_isActive := False\<rparr>"
  by (simp add: addUser_def split_beta Let_def)

lemma getUser_eq:
  "getUser e email w = (find (\<lambda>user. u_email user = email) (storedUsers e w), snd (getData e w))"
  by (simp add: getUser_def storedUsers_def split_beta)

text \<open>The admin branch of authenticateUser, by what the lookup found.\<close>

lemma authenticateUser_admin_found:
  assumes "find (\<lambda>user. u_email user = ''admin@issacasimov.in'') (storedUsers e w) = Some user"
    and "orDefault (getUserPasswords w ''admin@issacasimov.in'') ''ralab'' = password"
  shows "authenticateUser e ''admin@issacasimov.in'' password w = recordLogin e user (snd (getData e w))"
  using assms by (simp add: authenticateUser_def getUser_eq Let_def)

lemma authenticateUser_admin_created:
  assumes "find (\<lambda>user. u_email user = ''admin@issacasimov.in'') (storedUsers e w) = None"
    and "orDefault (getUserPasswords w ''admin@issacasimov.in'') ''ralab'' = password"
  shows "authenticateUser e ''admin@issacasimov.in'' password w =
     recordLogin e
       \<lparr>u_id = ''admin-1'', u_name = ''Administrator'', u_email = ''admin@issacasimov.in'',
         u_role = Admin, u_rollNo = None, u_mobile = None,
         u_registeredAt = clock e (tick (snd (getData e w))),
         u_lastLoginAt = None, u_loginCount = 0, u_isActive = False\<rparr>
       (setUserPassword ''admin@issacasimov.in'' ''ralab''
          (snd (addUser e
             \<lparr>u_id = ''admin-1'', u_name = ''Administrator'', u_email = ''admin@issacasimov.in'',
               u_role = Admin, u_rollNo = None, u_mobile = None,
               u_registeredAt = clock e (tick (snd (getData e w))),
               u_lastLoginAt = None, u_loginCount = 0, u_isActive = True\<rparr>
             (snd (now e (snd (getData e w)))))))"
  using assms by (simp add: authenticateUser_def getUser_eq Let_def split_beta fst_addUser now_def)

lemma authenticateUser_admin_rejected:
  assumes "orDefault (getUserPasswords w ''admin@issacasimov.in'') ''ralab'' \<noteq> password"
  shows "authenticateUser e ''admin@issacasimov.in'' password w = (None, snd (getData e w))"
  using assms by (auto simp add: authenticateUser_def getUser_eq Let_def)

section \<open>The default credential of the administrator\<close>

lemma find_email: "find (\<lambda>user. u_email user = email) us = Some u \<Longrightarrow> u_email u = email"
  by (induction us) (auto split: if_splits)


lemma getUserPasswords_addUser [simp]:
  "getUserPasswords (snd (addUser e u w)) = getUserPasswords w"
  by (simp add: getUserPasswords_def)

lemma passwordSlot_setUserPassword:
  "passwordSlot (setUserPassword email password w) = Some ((getUserPasswords w)(email \<mapsto> password))"
  by (simp add: setUserPassword_def Let_def)

lemma admin_default_created:
  assumes "getUserPasswords w ''admin@issacasimov.in'' = None"
    and nf: "find (\<lambda>u. u_email u = ''admin@issacasimov.in'') (storedUsers e w) = None"
  shows "\<exists>u. fst (authenticateUser e ''admin@issacasimov.in'' ''ralab'' w) = Some u \<and>
              u_email u = ''admin@issacasimov.in''"
    and "passwordSlot (snd (authenticateUser e ''admin@issacasimov.in'' ''ralab'' w)) =
           Some ((getUserPasswords w)(''admin@issacasimov.in'' \<mapsto> ''ralab''))"
proof -
  from assms(1) have pw: "orDefault (getUserPasswords w ''admin@issacasimov.in'') ''ralab'' = ''ralab''"
    by (simp add: orDefault_def)
  show "\<exists>u. fst (authenticateUser e ''admin@issacasimov.in'' ''ralab'' w) = Some u \<and>
              u_email u = ''admin@issacasimov.in''"
    unfolding authenticateUser_admin_created [OF nf pw] by (simp add: fst_recordLogin)
  show "passwordSlot (snd (authenticateUser e ''admin@issacasimov.in'' ''ralab'' w)) =
           Some ((getUserPasswords w)(''admin@issacasimov.in'' \<mapsto> ''ralab''))"
    unfolding authenticateUser_admin_created [OF nf pw]
    by (simp add: passwordSlot_setUserPassword)
qed

lemma admin_default_found:
  assumes "orDefault (getUserPasswords w ''admin@issacasimov.in'') ''ralab'' = ''ralab''"
    and f: "find (\<lambda>u. u_email u = ''admin@issacasimov.in'') (storedUsers e w) = Some user"
  shows "\<exists>u. fst (authenticateUser e ''admin@issacasimov.in'' ''ralab'' w) = Some u \<and>
              u_email u = ''admin@issacasimov.in''"
    and "passwordSlot (snd (authenticateUser e ''admin@issacasimov.in'' ''ralab'' w)) = passwordSlot w"
proof -
  from f have "u_email user = ''admin@issacasimov.in''" by (rule find_email)
  then show "\<exists>u. fst (authenticateUser e ''admin@issacasimov.in'' ''ralab'' w) = Some u \<and>
              u_email u = ''admin@issacasimov.in''"
    unfolding authenticateUser_admin_found [OF f assms(1)] by (simp add: fst_recordLogin)
  show "passwordSlot (snd (authenticateUser e ''admin@issacasimov.in'' ''ralab'' w)) = passwordSlot w"
    unfolding authenticateUser_admin_found [OF f assms(1)] by simp
qed




section \<open>The first login of the administrator and a changed password\<close>

lemma storedUsers_first_run:
  "dataSlot w = None \<Longrightarrow> storedUsers e w = users (fst (getDefaultData e w))"
  by (simp add: storedUsers_def getData_def)

lemma getUserPasswords_setUserPassword:
  "getUserPasswords (setUserPassword email password w) = (getUserPasswords w)(email \<mapsto> password)"
  by (simp add: getUserPasswords_def passwordSlot_setUserPassword)

text \<open>
  The administrator's branch of \<open>authenticateUser\<close> with the password \<open>ralab\<close>: with no
  credential map persisted it returns a user with the administrator's email, on a first
  run the seeded administrator \<open>admin-1\<close>, logged in once; with a stored credential that
  is a non-empty password other than \<open>ralab\<close> it returns \<open>null\<close>.
\<close>

lemma admin_login_cases:
  "(passwordSlot w = None \<longrightarrow>
      (\<exists>u. fst (authenticateUser e adminEmail ''ralab'' w) = Some u \<and> u_email u = adminEmail)) \<and>
   (dataSlot w = None \<and> passwordSlot w = None \<longrightarrow>
      fst (authenticateUser e adminEmail ''ralab'' w) =
        Some \<lparr>u_id = ''admin-1'', u_name = ''Administrator'', u_email = adminEmail, u_role = Admin,
               u_rollNo = None, u_mobile = None, u_registeredAt = clock e (tick w),
               u_lastLoginAt = Some (clock e (Suc (tick w))), u_loginCount = 1, u_isActive = True\<rparr>) \<and>
   (getUserPasswords w adminEmail = Some p \<and> p \<noteq> [] \<and> p \<noteq> ''ralab'' \<longrightarrow>
      fst (authenticateUser e adminEmail ''ralab'' w) = None) \<and>
   (p \<noteq> [] \<and> p \<noteq> ''ralab'' \<longrightarrow>
      fst (authenticateUser e adminEmail ''ralab'' (setUserPassword adminEmail p w)) = None)"
proof (intro conjI impI)
  assume "passwordSlot w = None"
  then have "getUserPasswords w adminEmail = None"
    by (simp add: getUserPasswords_def)
  then show "\<exists>u. fst (authenticateUser e adminEmail ''ralab'' w) = Some u \<and> u_email u = adminEmail"
    using admin_default_created(1) [of w e] admin_default_found(1) [of w e]
    by (cases "find (\<lambda>u. u_email u = ''admin@issacasimov.in'') (storedUsers e w)")
       (simp_all add: adminEmail_def orDefault_def)
next
  assume a: "dataSlot w = None \<and> passwordSlot w = None"
  then have pw: "orDefault (getUserPasswords w ''admin@issacasimov.in'') ''ralab'' = ''ralab''"
    by (simp add: getUserPasswords_def orDefault_def)
  from a have f: "find (\<lambda>u. u_email u = ''admin@issacasimov.in'') (storedUsers e w) =
      Some \<lparr>u_id = ''admin-1'', u_name = ''Administrator'', u_email = ''admin@issacasimov.in'',
             u_role = Admin, u_rollNo = None, u_mobile = None, u_registeredAt = clock e (tick w),
             u_lastLoginAt = None, u_loginCount = 0, u_isActive = False\<rparr>"
    by (simp add: storedUsers_first_run getDefaultData_def now_def)
  from a have t: "tick (snd (getData e w)) = Suc (tick w)"
    by (simp add: getData_def getDefaultData_def now_def)
  show "fst (authenticateUser e adminEmail ''ralab'' w) =
        Some \<lparr>u_id = ''admin-1'', u_name = ''Administrator'', u_email = adminEmail, u_role = Admin,
               u_rollNo = None, u_mobile = None, u_registeredAt = clock e (tick w),
               u_lastLoginAt = Some (clock e (Suc (tick w))), u_loginCount = 1, u_isActive = True\<rparr>"
    unfolding adminEmail_def authenticateUser_admin_found [OF f pw]
    by (simp add: fst_recordLogin t)
next
  assume "getUserPasswords w adminEmail = Some p \<and> p \<noteq> [] \<and> p \<noteq> ''ralab''"
  then have "orDefault (getUserPasswords w ''admin@issacasimov.in'') ''ralab'' \<noteq> ''ralab''"
    by (simp add: adminEmail_def orDefault_def)
  then show "fst (authenticateUser e adminEmail ''ralab'' w) = None"
    unfolding adminEmail_def by (simp add: authenticateUser_admin_rejected)
next
  assume "p \<noteq> [] \<and> p \<noteq> ''ralab''"
  then have "orDefault (getUserPasswords (setUserPassword ''admin@issacasimov.in'' p w)
                ''admin@issacasimov.in'') ''ralab'' \<noteq> ''ralab''"
    by (simp add: getUserPasswords_setUserPassword orDefault_def)
  then show "fst (authenticateUser e adminEmail ''ralab'' (setUserPassword adminEmail p w)) = None"
    unfolding adminEmail_def by (simp add: authenticateUser_admin_rejected)
qed

text \<open>
  C5. The first login of the administrator with \<open>ralab\<close> succeeds, and the old password
  fails once the stored credential is a non-empty password other than \<open>ralab\<close>
  (\<open>admin_login_cases\<close>). It does not fail once the credential has been changed to the
  empty password: \<open>passwords[email] || 'ralab'\<close> takes the default for a stored empty
  string, so the administrator still logs in with \<open>ralab\<close> and is refused with the
  password that is stored, while \<open>verifyPassword\<close>, which the other users go through,
  compares with the stored string and accepts exactly the empty password.
\<close>

theorem empty_admin_password_admits_default:
  "getUserPasswords (setUserPassword adminEmail [] world0) adminEmail = Some [] \<and>
   [] \<noteq> ''ralab'' \<and>
   fst (authenticateUser env0 adminEmail ''ralab'' (setUserPassword adminEmail [] world0)) \<noteq> None \<and>
   fst (authenticateUser env0 adminEmail [] (setUserPassword adminEmail [] world0)) = None \<and>
   verifyPassword adminEmail [] (setUserPassword adminEmail [] world0) \<and>
   \<not> verifyPassword adminEmail ''ralab'' (setUserPassword adminEmail [] world0)"
proof -
  let ?w = "setUserPassword ''admin@issacasimov.in'' [] world0"
  have pw: "orDefault (getUserPasswords ?w ''admin@issacasimov.in'') ''ralab'' = ''ralab''"
    by (simp add: getUserPasswords_setUserPassword orDefault_def)
  have "dataSlot ?w = None" by (simp add: setUserPassword_def world0_def Let_def)
  then have f: "find (\<lambda>u. u_email u = ''admin@issacasimov.in'') (storedUsers env0 ?w) =
             Some (hd (users (fst (getDefaultData env0 ?w))))"
    by (simp add: storedUsers_first_run getDefaultData_def now_def)
  from admin_default_found(1) [OF pw f]
  have a: "fst (authenticateUser env0 ''admin@issacasimov.in'' ''ralab'' ?w) \<noteq> None" by auto
  from pw have "orDefault (getUserPasswords ?w ''admin@issacasimov.in'') ''ralab'' \<noteq> []" by simp
  then have b: "fst (authenticateUser env0 ''admin@issacasimov.in'' [] ?w) = None"
    by (simp add: authenticateUser_admin_rejected)
  have c: "verifyPassword ''admin@issacasimov.in'' [] ?w"
    "\<not> verifyPassword ''admin@issacasimov.in'' ''ralab'' ?w"
    by (simp_all add: verifyPassword_def getUserPasswords_setUserPassword)
  from a b c show ?thesis
    unfolding adminEmail_def by (simp add: getUserPasswords_setUserPassword)
qed

text \<open>The first run, and the old password after the credential was changed to \<open>asimov42\<close>.\<close>

lemma admin_login_cases_example:
  "fst (authenticateUser env0 adminEmail ''ralab'' world0) =
     Some \<lparr>u_id = ''admin-1'', u_name = ''Administrator'', u_email = adminEmail, u_role = Admin,
            u_rollNo = None, u_mobile = None, u_registeredAt = 1700000000000,
            u_lastLoginAt = Some 1700000001000, u_loginCount = 1, u_isActive = True\<rparr> \<and>
   fst (authenticateUser env0 adminEmail ''ralab'' (setUserPassword adminEmail ''asimov42'' world0)) = None"
proof -
  have a: "dataSlot world0 = None \<and> passwordSlot world0 = None" "tick world0 = 0"
    by (simp_all add: world0_def)
  have c: "clock env0 0 = 1700000000000" "clock env0 (Suc 0) = 1700000001000"
    by (simp_all add: env0_def)
  have p: "''asimov42'' \<noteq> [] \<and> ''asimov42'' \<noteq> ''ralab''" by simp
  from admin_login_cases [of world0 env0 "''asimov42''"] a c p
  show ?thesis by simp
qed

section \<open>Login sessions\<close>

lemma loginSessions_getData: "loginSessions (fst (getData e w)) = storedSessions w"
  by (simp add: getData_def getDefaultData_def storedSessions_def split_beta split: option.splits)

lemma fst_getLoginSessions: "fst (getLoginSessions e w) = storedSessions w"
  by (simp add: getLoginSessions_def split_beta loginSessions_getData)

lemma storedSessions_frame [simp]:
  "storedSessions (snd (now e w)) = storedSessions w"
  "storedSessions (snd (mathRandom e w)) = storedSessions w"
  "storedSessions (snd (getData e w)) = storedSessions w"
  "storedSessions (setUserPassword email password w) = storedSessions w"
  "storedSessions (w\<lparr>tick := n\<rparr>) = storedSessions w"
  by (simp_all add: storedSessions_def now_def mathRandom_def getData_def getDefaultData_def
      setUserPassword_def Let_def split: option.splits)

lemma storedSessions_saveData [simp]: "storedSessions (saveData d w) = loginSessions d"
  by (simp add: storedSessions_def saveData_def)

lemma storedSessions_updateUser [simp]: "storedSessions (updateUser e u w) = storedSessions w"
  by (simp add: updateUser_def split_beta loginSessions_getData split: option.splits)

lemma storedSessions_addUser [simp]: "storedSessions (snd (addUser e u w)) = storedSessions w"
  by (simp add: addUser_def split_beta Let_def loginSessions_getData)

lemma storedSessions_createLoginSession:
  "storedSessions (snd (createLoginSession e u w)) =
     storedSessions w @ [fst (createLoginSession e u w)]"
  by (simp add: createLoginSession_def split_beta Let_def loginSessions_getData)

lemma createLoginSession_fields:
  "s_userId (fst (createLoginSession e u w)) = u_id u"
  "s_isActive (fst (createLoginSession e u w))"
  "s_logoutTime (fst (createLoginSession e u w)) = None"
  "s_sessionDuration (fst (createLoginSession e u w)) = None"
  by (simp_all add: createLoginSession_def split_beta Let_def)

lemma recordLogin_session:
  assumes "fst (recordLogin e user w) = Some u"
  shows "\<exists>s. storedSessions (snd (recordLogin e user w)) = storedSessions w @ [s] \<and>
             s_userId s = u_id u \<and> s_isActive s \<and> s_logoutTime s = None \<and>
             s_sessionDuration s = None"
proof -
  let ?u1 = "user\<lparr>u_lastLoginAt := Some (fst (now e w)), u_loginCount := u_loginCount user + 1,
                   u_isActive := True\<rparr>"
  let ?w2 = "updateUser e ?u1 (snd (now e w))"
  have r: "recordLogin e user w = (Some ?u1, snd (createLoginSession e ?u1 ?w2))"
    by (simp add: recordLogin_def split_beta Let_def)
  with assms have u: "u = ?u1" by simp
  have "storedSessions (snd (recordLogin e user w)) =
          storedSessions w @ [fst (createLoginSession e ?u1 ?w2)]"
    unfolding r by (simp add: storedSessions_createLoginSession)
  then show ?thesis
    unfolding u by (simp add: createLoginSession_fields)
qed

lemma authenticateUser_regular:
  assumes "email \<noteq> ''admin@issacasimov.in''"
  shows "authenticateUser e email password w =
     (case find (\<lambda>user. u_email user = email) (storedUsers e w) of
        None \<Rightarrow> (None, snd (getData e w))
      | Some user \<Rightarrow>
          if verifyPassword email password (snd (getData e w))
          then recordLogin e user (snd (getData e w)) else (None, snd (getData e w)))"
  using assms by (simp add: authenticateUser_def getUser_eq)

lemma authenticateUser_success:
  assumes ok: "fst (authenticateUser e email password w) = Some u"
  shows "\<exists>user w1. authenticateUser e email password w = recordLogin e user w1 \<and>
           storedSessions w1 = storedSessions w"
proof (cases "email = ''admin@issacasimov.in''")
  case False
  show ?thesis
  proof (cases "find (\<lambda>user. u_email user = email) (storedUsers e w)")
    case None
    with False ok show ?thesis by (simp add: authenticateUser_regular)
  next
    case (Some user)
    with False ok have "authenticateUser e email password w = recordLogin e user (snd (getData e w))"
      by (simp add: authenticateUser_regular split: if_splits)
    moreover have "storedSessions (snd (getData e w)) = storedSessions w" by simp
    ultimately show ?thesis by blast
  qed
next
  case True
  show ?thesis
  proof (cases "orDefault (getUserPasswords w ''admin@issacasimov.in'') ''ralab'' = password")
    case False
    with True ok show ?thesis by (simp add: authenticateUser_admin_rejected)
  next
    case pw: True
    show ?thesis
    proof (cases "find (\<lambda>user. u_email user = ''admin@issacasimov.in'') (storedUsers e w)")
      case None
      note eq = authenticateUser_admin_created [OF None pw]
      show ?thesis
        unfolding True
        by (rule exI, rule exI, rule conjI, rule eq) simp
    next
      case (Some user)
      note eq = authenticateUser_admin_found [OF Some pw]
      show ?thesis
        unfolding True
        by (rule exI, rule exI, rule conjI, rule eq) simp
    qed
  qed
qed

lemma authenticateUser_session:
  assumes "fst (authenticateUser e email password w) = Some u"
  shows "\<exists>s. storedSessions (snd (authenticateUser e email password w)) = storedSessions w @ [s] \<and>
             s_userId s = u_id u \<and> s_isActive s \<and> s_logoutTime s = None \<and>
             s_sessionDuration s = None"
proof -
  obtain user w1 where eq: "authenticateUser e email password w = recordLogin e user w1"
    and fr: "storedSessions w1 = storedSessions w"
    using authenticateUser_success [OF assms] by blast
  from assms have "fst (recordLogin e user w1) = Some u" by (simp add: eq)
  from recordLogin_session [OF this] show ?thesis
    by (simp add: eq fr)
qed

section \<open>The life of a login session\<close>

lemma closeSessions_rel:
  "list_all2 (\<lambda>s s1. if s_userId s = userId \<and> s_isActive s then \<exists>k. s1 = closedAt e k s else s1 = s)
     ss (fst (closeSessions e userId ss w))"
proof (induction ss arbitrary: w)
  case Nil
  show ?case by simp
next
  case (Cons s ss)
  show ?case
  proof (cases "s_userId s = userId \<and> s_isActive s")
    case True
    have "fst (closeSessions e userId (s # ss) w) =
            closedAt e (tick w) s # fst (closeSessions e userId ss (w\<lparr>tick := Suc (Suc (tick w))\<rparr>))"
      using True by (simp add: split_beta Let_def now_def closedAt_def)
    with True Cons.IH show ?thesis by auto
  next
    case False
    then have "fst (closeSessions e userId (s # ss) w) = s # fst (closeSessions e userId ss w)"
      by (auto simp add: split_beta)
    with False Cons.IH show ?thesis by auto
  qed
qed

lemma closeSessions_active:
  "filter s_isActive (fst (closeSessions e userId ss w)) =
     filter (\<lambda>s. s_isActive s \<and> s_userId s \<noteq> userId) ss"
proof (induction ss arbitrary: w)
  case Nil
  show ?case by simp
next
  case (Cons s ss)
  show ?case
  proof (cases "s_userId s = userId \<and> s_isActive s")
    case True
    have "fst (closeSessions e userId (s # ss) w) =
            closedAt e (tick w) s # fst (closeSessions e userId ss (w\<lparr>tick := Suc (Suc (tick w))\<rparr>))"
      using True by (simp add: split_beta Let_def now_def closedAt_def)
    with True Cons.IH show ?thesis by (simp add: closedAt_def)
  next
    case False
    then have "fst (closeSessions e userId (s # ss) w) = s # fst (closeSessions e userId ss w)"
      by (auto simp add: split_beta)
    with False Cons.IH show ?thesis by auto
  qed
qed

lemma storedSessions_endLoginSession:
  "storedSessions (endLoginSession e userId w) =
     fst (closeSessions e userId (storedSessions w) (snd (getData e w)))"
  by (simp add: endLoginSession_def split_beta Let_def loginSessions_getData)

lemma onlineUsers_stats:
  "onlineUsers (fst (getSystemStats e w)) = length (filter s_isActive (storedSessions w))"
  by (simp add: getSystemStats_def split_beta Let_def loginSessions_getData)

lemma filter_split_length:
  "length (filter P xs) = length (filter (\<lambda>x. P x \<and> \<not> Q x) xs) + length (filter (\<lambda>x. Q x \<and> P x) xs)"
  by (induction xs) auto

text \<open>
  The local store's side of the life of a session. \<open>endLoginSession\<close> keeps the number
  and the order of the stored sessions; a session of the user that was active becomes
  the session \<open>closedAt\<close> some clock read \<open>k\<close>, every other session is left as it was. A
  session closed at \<open>k\<close> is not active, its \<open>logoutTime\<close> is read \<open>k\<close> of the clock, and
  its \<open>sessionDuration\<close> is \<open>logoutTime\<close> minus \<open>loginTime\<close> plus the time between reads
  \<open>k\<close> and \<open>k + 1\<close>: if consecutive reads of the clock are never more than \<open>tol\<close> apart,
  the duration is within \<open>tol\<close> of \<open>logoutTime\<close> minus \<open>loginTime\<close>. \<open>onlineUsers\<close> of the
  statistics taken afterwards counts the active sessions of the other users only. A call
  of the local \<open>authenticateUser\<close> that returns a user appends exactly one session to the
  stored sessions, active, not logged out, of that user.
\<close>

lemma session_lifecycle:
  "length (fst (getLoginSessions e (endLoginSession e userId w))) =
     length (fst (getLoginSessions e w)) \<and>
   (\<forall>i < length (fst (getLoginSessions e w)).
      (s_userId (fst (getLoginSessions e w) ! i) = userId \<and>
       s_isActive (fst (getLoginSessions e w) ! i) \<longrightarrow>
         (\<exists>k. fst (getLoginSessions e (endLoginSession e userId w)) ! i =
                closedAt e k (fst (getLoginSessions e w) ! i))) \<and>
      (\<not> (s_userId (fst (getLoginSessions e w) ! i) = userId \<and>
          s_isActive (fst (getLoginSessions e w) ! i)) \<longrightarrow>
         fst (getLoginSessions e (endLoginSession e userId w)) ! i =
           fst (getLoginSessions e w) ! i)) \<and>
   (\<not> s_isActive (closedAt e k s) \<and> s_logoutTime (closedAt e k s) = Some (clock e k) \<and>
    s_sessionDuration (closedAt e k s) =
      Some ((clock e k - s_loginTime s) + (clock e (Suc k) - clock e k))) \<and>
   ((\<forall>n. \<bar>clock e (Suc n) - clock e n\<bar> \<le> tol) \<longrightarrow>
      (\<forall>i < length (fst (getLoginSessions e w)).
         s_userId (fst (getLoginSessions e w) ! i) = userId \<and>
         s_isActive (fst (getLoginSessions e w) ! i) \<longrightarrow>
           (\<exists>t d. s_logoutTime (fst (getLoginSessions e (endLoginSession e userId w)) ! i) = Some t \<and>
                  s_sessionDuration (fst (getLoginSessions e (endLoginSession e userId w)) ! i) = Some d \<and>
                  \<not> s_isActive (fst (getLoginSessions e (endLoginSession e userId w)) ! i) \<and>
                  \<bar>d - (t - s_loginTime (fst (getLoginSessions e w) ! i))\<bar> \<le> tol))) \<and>
   onlineUsers (fst (getSystemStats e (endLoginSession e userId w))) =
     length (filter (\<lambda>s. s_isActive s \<and> s_userId s \<noteq> userId) (fst (getLoginSessions e w))) \<and>
   onlineUsers (fst (getSystemStats e (endLoginSession e userId w))) +
     length (filter (\<lambda>s. s_userId s = userId \<and> s_isActive s) (fst (getLoginSessions e w))) =
     onlineUsers (fst (getSystemStats e w)) \<and>
   (fst (authenticateUser e email password w) = Some u \<longrightarrow>
      (\<exists>s. fst (getLoginSessions e (snd (authenticateUser e email password w))) =
             fst (getLoginSessions e w) @ [s] \<and>
           s_userId s = u_id u \<and> s_isActive s \<and> s_logoutTime s = None))"
proof -
  let ?ss = "storedSessions w"
  let ?ss1 = "storedSessions (endLoginSession e userId w)"
  have rel: "list_all2 (\<lambda>s s1. if s_userId s = userId \<and> s_isActive s then \<exists>k. s1 = closedAt e k s
                else s1 = s) ?ss ?ss1"
    unfolding storedSessions_endLoginSession by (rule closeSessions_rel)
  have len: "length ?ss1 = length ?ss"
    using rel by (simp add: list_all2_lengthD)
  have nth: "\<And>i. i < length ?ss \<Longrightarrow>
      (if s_userId (?ss ! i) = userId \<and> s_isActive (?ss ! i)
       then \<exists>k. ?ss1 ! i = closedAt e k (?ss ! i) else ?ss1 ! i = ?ss ! i)"
    using rel by (simp add: list_all2_conv_all_nth)
  have p1: "\<forall>i < length ?ss.
      (s_userId (?ss ! i) = userId \<and> s_isActive (?ss ! i) \<longrightarrow>
         (\<exists>k. ?ss1 ! i = closedAt e k (?ss ! i))) \<and>
      (\<not> (s_userId (?ss ! i) = userId \<and> s_isActive (?ss ! i)) \<longrightarrow> ?ss1 ! i = ?ss ! i)"
    using nth by (auto split: if_splits)
  have p2: "\<not> s_isActive (closedAt e k s) \<and> s_logoutTime (closedAt e k s) = Some (clock e k) \<and>
    s_sessionDuration (closedAt e k s) =
      Some ((clock e k - s_loginTime s) + (clock e (Suc k) - clock e k))"
    by (simp add: closedAt_def)
  have p3: "(\<forall>n. \<bar>clock e (Suc n) - clock e n\<bar> \<le> tol) \<longrightarrow>
      (\<forall>i < length ?ss. s_userId (?ss ! i) = userId \<and> s_isActive (?ss ! i) \<longrightarrow>
           (\<exists>t d. s_logoutTime (?ss1 ! i) = Some t \<and> s_sessionDuration (?ss1 ! i) = Some d \<and>
                  \<not> s_isActive (?ss1 ! i) \<and> \<bar>d - (t - s_loginTime (?ss ! i))\<bar> \<le> tol))"
  proof (intro impI allI)
    fix i
    assume tol: "\<forall>n. \<bar>clock e (Suc n) - clock e n\<bar> \<le> tol"
      and i: "i < length ?ss" and a: "s_userId (?ss ! i) = userId \<and> s_isActive (?ss ! i)"
    from nth [OF i] a obtain k where k: "?ss1 ! i = closedAt e k (?ss ! i)" by auto
    from tol have "\<bar>clock e (Suc k) - clock e k\<bar> \<le> tol" by blast
    then have "\<bar>(clock e (Suc k) - s_loginTime (?ss ! i)) - (clock e k - s_loginTime (?ss ! i))\<bar> \<le> tol"
      by simp
    then show "\<exists>t d. s_logoutTime (?ss1 ! i) = Some t \<and> s_sessionDuration (?ss1 ! i) = Some d \<and>
                  \<not> s_isActive (?ss1 ! i) \<and> \<bar>d - (t - s_loginTime (?ss ! i))\<bar> \<le> tol"
      unfolding k by (simp add: closedAt_def)
  qed
  have p4: "onlineUsers (fst (getSystemStats e (endLoginSession e userId w))) =
     length (filter (\<lambda>s. s_isActive s \<and> s_userId s \<noteq> userId) ?ss)"
    by (simp add: onlineUsers_stats storedSessions_endLoginSession closeSessions_active)
  have p5: "onlineUsers (fst (getSystemStats e (endLoginSession e userId w))) +
     length (filter (\<lambda>s. s_userId s = userId \<and> s_isActive s) ?ss) =
     onlineUsers (fst (getSystemStats e w))"
    using p4 filter_split_length [of s_isActive ?ss "\<lambda>s. s_userId s = userId"]
    by (simp add: onlineUsers_stats)
  have p6: "fst (authenticateUser e email password w) = Some u \<longrightarrow>
      (\<exists>s. storedSessions (snd (authenticateUser e email password w)) = ?ss @ [s] \<and>
           s_userId s = u_id u \<and> s_isActive s \<and> s_logoutTime s = None)"
    using authenticateUser_session [of e email password w u] by blast
  from len p1 p2 p3 p4 p5 p6 show ?thesis
    unfolding fst_getLoginSessions by blast
qed


text \<open>
  The facade's \<open>authenticateUser\<close> reaches the local \<open>authenticateUser\<close> only when the
  remote sign-in is not used or does not succeed; on a remote success it updates the
  user and returns.
\<close>

lemma hybrid_authenticateUser_remote_success:
  assumes "isOnline f \<and> useFirebase f"
  shows "hybrid_authenticateUser f e (Inr (Some ())) (Inr (Some ud)) email password w =
           (Inr (Some ud), updateUser e ud w)"
  using assms by (simp add: hybrid_authenticateUser_def)

text \<open>
  With a clock that advances a second per read: the active session of \<open>user-1\<close> is
  closed, the online count goes from one to zero; the first login of the administrator
  leaves one session.
\<close>

lemma session_lifecycle_example:
  "(\<exists>t d. s_logoutTime (fst (getLoginSessions env0 (endLoginSession env0 ''user-1'' twoSessionWorld)) ! 0) = Some t \<and>
          s_sessionDuration (fst (getLoginSessions env0 (endLoginSession env0 ''user-1'' twoSessionWorld)) ! 0) = Some d \<and>
          \<not> s_isActive (fst (getLoginSessions env0 (endLoginSession env0 ''user-1'' twoSessionWorld)) ! 0) \<and>
          \<bar>d - (t - 1700000000000)\<bar> \<le> 1000) \<and>
   onlineUsers (fst (getSystemStats env0 twoSessionWorld)) = 1 \<and>
   onlineUsers (fst (getSystemStats env0 (endLoginSession env0 ''user-1'' twoSessionWorld))) = 0 \<and>
   (\<exists>s. fst (getLoginSessions env0 (snd (authenticateUser env0 adminEmail ''ralab'' world0))) = [s] \<and>
        s_userId s = ''admin-1'' \<and> s_isActive s \<and> s_logoutTime s = None)"
proof -
  have ss: "fst (getLoginSessions env0 twoSessionWorld) = [activeSession, closedSession]"
    by (simp add: fst_getLoginSessions storedSessions_def twoSessionWorld_def world0_def emptyData_def)
  have tol: "\<forall>n. \<bar>clock env0 (Suc n) - clock env0 n\<bar> \<le> 1000"
    by (simp add: env0_def)
  have act: "s_userId activeSession = ''user-1'' \<and> s_isActive activeSession"
    "s_loginTime activeSession = 1700000000000"
    "\<not> s_isActive closedSession"
    by (simp_all add: activeSession_def closedSession_def)
  note t1 = session_lifecycle [of env0 "''user-1''" twoSessionWorld 0 activeSession 1000
      adminEmail "''ralab''" ghostUser, unfolded ss]
  have p3: "\<forall>i < length [activeSession, closedSession].
         s_userId ([activeSession, closedSession] ! i) = ''user-1'' \<and>
         s_isActive ([activeSession, closedSession] ! i) \<longrightarrow>
           (\<exists>t d. s_logoutTime (fst (getLoginSessions env0 (endLoginSession env0 ''user-1'' twoSessionWorld)) ! i) = Some t \<and>
                  s_sessionDuration (fst (getLoginSessions env0 (endLoginSession env0 ''user-1'' twoSessionWorld)) ! i) = Some d \<and>
                  \<not> s_isActive (fst (getLoginSessions env0 (endLoginSession env0 ''user-1'' twoSessionWorld)) ! i) \<and>
                  \<bar>d - (t - s_loginTime ([activeSession, closedSession] ! i))\<bar> \<le> 1000)"
    using t1 tol by blast
  have a: "\<exists>t d. s_logoutTime (fst (getLoginSessions env0 (endLoginSession env0 ''user-1'' twoSessionWorld)) ! 0) = Some t \<and>
          s_sessionDuration (fst (getLoginSessions env0 (endLoginSession env0 ''user-1'' twoSessionWorld)) ! 0) = Some d \<and>
          \<not> s_isActive (fst (getLoginSessions env0 (endLoginSession env0 ''user-1'' twoSessionWorld)) ! 0) \<and>
          \<bar>d - (t - 1700000000000)\<bar> \<le> 1000"
    using p3 [rule_format, of 0] act by simp
  have p4: "onlineUsers (fst (getSystemStats env0 (endLoginSession env0 ''user-1'' twoSessionWorld))) =
     length (filter (\<lambda>s. s_isActive s \<and> s_userId s \<noteq> ''user-1'') [activeSession, closedSession])"
    using t1 by blast
  have p5: "onlineUsers (fst (getSystemStats env0 (endLoginSession env0 ''user-1'' twoSessionWorld))) +
     length (filter (\<lambda>s. s_userId s = ''user-1'' \<and> s_isActive s) [activeSession, closedSession]) =
     onlineUsers (fst (getSystemStats env0 twoSessionWorld))"
    using t1 by blast
  have b: "onlineUsers (fst (getSystemStats env0 (endLoginSession env0 ''user-1'' twoSessionWorld))) = 0"
    using p4 act by simp
  have c: "onlineUsers (fst (getSystemStats env0 twoSessionWorld)) = 1"
    using p5 b act by simp
  have s0: "fst (getLoginSessions env0 world0) = []"
    by (simp add: fst_getLoginSessions storedSessions_def world0_def)
  have pw: "orDefault (getUserPasswords world0 ''admin@issacasimov.in'') ''ralab'' = ''ralab''"
    by (simp add: getUserPasswords_def world0_def orDefault_def)
  have f: "find (\<lambda>u. u_email u = ''admin@issacasimov.in'') (storedUsers env0 world0) =
             Some (hd (users (fst (getDefaultData env0 world0))))"
    by (simp add: storedUsers_def getData_world0 getDefaultData_def now_def)
  have "\<exists>u. fst (authenticateUser env0 adminEmail ''ralab'' world0) = Some u \<and> u_id u = ''admin-1''"
    unfolding adminEmail_def authenticateUser_admin_found [OF f pw]
    by (simp add: fst_recordLogin getDefaultData_def now_def)
  then obtain u where u: "fst (authenticateUser env0 adminEmail ''ralab'' world0) = Some u"
    "u_id u = ''admin-1''" by blast
  have d: "\<exists>s. fst (getLoginSessions env0 (snd (authenticateUser env0 adminEmail ''ralab'' world0))) = [s] \<and>
        s_userId s = ''admin-1'' \<and> s_isActive s \<and> s_logoutTime s = None"
    using session_lifecycle [of env0 "''user-1''" world0 0 activeSession 1000 adminEmail "''ralab''" u]
      u s0 by simp
  from a b c d show ?thesis by blast
qed

lemma hybrid_authenticateUser_local_path:
  assumes "\<not> (isOnline f \<and> useFirebase f)"
  shows "hybrid_authenticateUser f e r_signIn r_get email password w =
           ok (authenticateUser e email password w)"
  using assms by (auto simp add: hybrid_authenticateUser_def ok_def split_beta)

lemma storedSessions_marker [simp]: "storedSessions (w\<lparr>currentUserSlot := c\<rparr>) = storedSessions w"
  by (simp add: storedSessions_def)

text \<open>A login that the remote store answers leaves the stored sessions as they were.\<close>

lemma login_remote_success:
  assumes "isOnline f \<and> useFirebase f"
  shows "login f e (Inr (Some ())) (Inr (Some ud)) email password w =
           (Inr True, (updateUser e ud w)\<lparr>currentUserSlot := Some ud\<rparr>)"
    and "fst (getLoginSessions e (snd (login f e (Inr (Some ())) (Inr (Some ud)) email password w))) =
           fst (getLoginSessions e w)"
proof -
  show a: "login f e (Inr (Some ())) (Inr (Some ud)) email password w =
           (Inr True, (updateUser e ud w)\<lparr>currentUserSlot := Some ud\<rparr>)"
    by (simp add: login_def hybrid_authenticateUser_remote_success [OF assms])
  show "fst (getLoginSessions e (snd (login f e (Inr (Some ())) (Inr (Some ud)) email password w))) =
           fst (getLoginSessions e w)"
    unfolding a by (simp add: fst_getLoginSessions)
qed

text \<open>
  C7. The logout half holds on the local store, and so does the login half when the
  login goes through the local \<open>authenticateUser\<close> (\<open>session_lifecycle\<close>). The login of
  the application calls the facade's \<open>authenticateUser\<close>, and that returns from inside its
  \<open>try\<close> block when the remote sign-in and the remote profile both answer: the user is
  logged in, the session marker is written, and no session is created, locally or
  remotely. On a first run a connected login of Alice returns \<open>true\<close> and leaves no
  session and no online user; the login of the administrator through the local path
  leaves one.
\<close>

theorem login_with_remote_identity_creates_no_session:
  "fst (login onlineFacade env0 (Inr (Some ())) (Inr (Some remoteAlice)) ''alice@example.org''
          ''s3cret'' world0) = Inr True \<and>
   currentUserSlot (snd (login onlineFacade env0 (Inr (Some ())) (Inr (Some remoteAlice))
          ''alice@example.org'' ''s3cret'' world0)) = Some remoteAlice \<and>
   fst (getLoginSessions env0 (snd (login onlineFacade env0 (Inr (Some ())) (Inr (Some remoteAlice))
          ''alice@example.org'' ''s3cret'' world0))) = [] \<and>
   onlineUsers (fst (getSystemStats env0 (snd (login onlineFacade env0 (Inr (Some ()))
          (Inr (Some remoteAlice)) ''alice@example.org'' ''s3cret'' world0)))) = 0 \<and>
   fst (login offlineFacade env0 remoteDown remoteDown adminEmail ''ralab'' world0) = Inr True \<and>
   length (fst (getLoginSessions env0
          (snd (login offlineFacade env0 remoteDown remoteDown adminEmail ''ralab'' world0)))) = 1"
proof -
  have on: "isOnline onlineFacade \<and> useFirebase onlineFacade"
    by (simp add: onlineFacade_def)
  have off: "\<not> (isOnline offlineFacade \<and> useFirebase offlineFacade)"
    by (simp add: offlineFacade_def)
  have s0: "fst (getLoginSessions env0 world0) = []"
    by (simp add: fst_getLoginSessions storedSessions_def world0_def)
  note r = login_remote_success [OF on, of env0 remoteAlice "''alice@example.org''" "''s3cret''" world0]
  have a: "fst (login onlineFacade env0 (Inr (Some ())) (Inr (Some remoteAlice)) ''alice@example.org''
          ''s3cret'' world0) = Inr True"
    "currentUserSlot (snd (login onlineFacade env0 (Inr (Some ())) (Inr (Some remoteAlice))
          ''alice@example.org'' ''s3cret'' world0)) = Some remoteAlice"
    by (simp_all add: r(1))
  have b: "fst (getLoginSessions env0 (snd (login onlineFacade env0 (Inr (Some ()))
          (Inr (Some remoteAlice)) ''alice@example.org'' ''s3cret'' world0))) = []"
    using r(2) s0 by simp
  then have c: "onlineUsers (fst (getSystemStats env0 (snd (login onlineFacade env0 (Inr (Some ()))
          (Inr (Some remoteAlice)) ''alice@example.org'' ''s3cret'' world0)))) = 0"
    by (simp add: onlineUsers_stats fst_getLoginSessions)
  have pw: "orDefault (getUserPasswords world0 ''admin@issacasimov.in'') ''ralab'' = ''ralab''"
    by (simp add: getUserPasswords_def world0_def orDefault_def)
  have f: "find (\<lambda>u. u_email u = ''admin@issacasimov.in'') (storedUsers env0 world0) =
             Some (hd (users (fst (getDefaultData env0 world0))))"
    by (simp add: storedUsers_def getData_world0 getDefaultData_def now_def)
  from admin_default_found(1) [OF pw f] obtain u where
    u: "fst (authenticateUser env0 adminEmail ''ralab'' world0) = Some u"
    unfolding adminEmail_def by blast
  from authenticateUser_session [OF u] obtain s where
    s: "storedSessions (snd (authenticateUser env0 adminEmail ''ralab'' world0)) =
          storedSessions world0 @ [s]" by blast
  have l: "login offlineFacade env0 remoteDown remoteDown adminEmail ''ralab'' world0 =
            (Inr True, (snd (authenticateUser env0 adminEmail ''ralab'' world0))
                          \<lparr>currentUserSlot := Some u\<rparr>)"
    by (simp add: login_def hybrid_authenticateUser_local_path [OF off] ok_def u)
  have d: "fst (login offlineFacade env0 remoteDown remoteDown adminEmail ''ralab'' world0) = Inr True"
    by (simp add: l)
  have e: "length (fst (getLoginSessions env0
          (snd (login offlineFacade env0 remoteDown remoteDown adminEmail ''ralab'' world0)))) = 1"
    using s s0 by (simp add: l fst_getLoginSessions)
  from a b c d e show ?thesis by blast
qed

section \<open>The login-session report\<close>

















section \<open>The flags of the facade\<close>

lemma keeping_Inr [simp]: "keeping f (Inr v, w) = (Inr f, w)"
  by (simp add: keeping_def)

lemma keeping_ok [simp]: "keeping f (ok p) = (Inr f, snd p)"
  by (simp add: keeping_def ok_def)

lemma syncToLocal_cases:
  "syncToLocal e (Inl err) w = (Inl err, w)"
  "\<exists>w1. syncToLocal e (Inr d) w = (Inr (), w1)"
  by (simp_all add: syncToLocal_def split_beta Let_def)

lemma syncWhenOnline_returns: "\<exists>w1. syncWhenOnline f e r w = (Inr (), w1)"
proof (cases r)
  case (Inl err)
  then show ?thesis by (simp add: syncWhenOnline_def syncToLocal_cases)
next
  case (Inr d)
  obtain w1 where "syncToLocal e (Inr d) w = (Inr (), w1)"
    using syncToLocal_cases(2) by blast
  with Inr show ?thesis by (simp add: syncWhenOnline_def)
qed

lemma syncWhenOnline_failure: "syncWhenOnline f e (Inl err) w = (Inr (), w)"
  by (simp add: syncWhenOnline_def syncToLocal_cases)

lemma onOnline_returns: "\<exists>w1. onOnline f e r w = (Inr (f\<lparr>isOnline := True\<rparr>), w1)"
proof -
  obtain w1 where "syncWhenOnline (f\<lparr>isOnline := True\<rparr>) e r w = (Inr (), w1)"
    using syncWhenOnline_returns by blast
  then show ?thesis by (simp add: onOnline_def)
qed

lemma onOnline_failure: "onOnline f e (Inl err) w = (Inr (f\<lparr>isOnline := True\<rparr>), w)"
  by (simp add: onOnline_def syncWhenOnline_failure)

lemma initializeFirebase_returns:
  "\<exists>f1 w1. initializeFirebase f e r_init r_sync w = (Inr f1, w1) \<and>
     (f1 = f \<or> f1 = f\<lparr>useFirebase := False\<rparr>)"
proof (cases "isOnline f")
  case False
  then show ?thesis by (simp add: initializeFirebase_def)
next
  case True
  show ?thesis
  proof (cases r_init)
    case (Inl err)
    with True show ?thesis by (simp add: initializeFirebase_def)
  next
    case (Inr u)
    show ?thesis
    proof (cases r_sync)
      case (Inl err)
      with True Inr show ?thesis by (simp add: initializeFirebase_def syncToLocal_cases)
    next
      case (Inr d)
      obtain w1 where "syncToLocal e (Inr d) w = (Inr (), w1)"
        using syncToLocal_cases(2) by blast
      with True Inr \<open>r_init = Inr u\<close> show ?thesis by (simp add: initializeFirebase_def)
    qed
  qed
qed

lemma initializeFirebase_failure:
  "isOnline f \<Longrightarrow> initializeFirebase f e (Inl err) r_sync w = (Inr (f\<lparr>useFirebase := False\<rparr>), w)"
  "isOnline f \<Longrightarrow> initializeFirebase f e (Inr ()) (Inl err) w = (Inr (f\<lparr>useFirebase := False\<rparr>), w)"
  by (simp_all add: initializeFirebase_def syncToLocal_cases)

lemma hybrid_getUser_returns: "\<exists>v w1. hybrid_getUser f e r email w = (Inr v, w1)"
proof (cases "isOnline f \<and> useFirebase f")
  case False
  then show ?thesis by (simp add: hybrid_getUser_cases(4) ok_def)
next
  case True
  then show ?thesis
    by (cases r; cases "projr r") (auto simp add: hybrid_getUser_cases ok_def)
qed

lemma hybrid_getComponents_returns: "\<exists>v w1. hybrid_getComponents f e r w = (Inr v, w1)"
proof (cases "isOnline f \<and> useFirebase f")
  case False
  then show ?thesis by (simp add: hybrid_getComponents_cases(4) ok_def)
next
  case True
  show ?thesis
  proof (cases r)
    case (Inl err)
    then show ?thesis by (simp add: hybrid_getComponents_cases(1) ok_def)
  next
    case (Inr xs)
    with True show ?thesis
      by (cases "xs = []") (simp_all add: hybrid_getComponents_cases ok_def)
  qed
qed

lemma hybrid_getRequests_returns: "\<exists>v w1. hybrid_getRequests f e r w = (Inr v, w1)"
proof (cases "isOnline f \<and> useFirebase f")
  case False
  then show ?thesis by (simp add: hybrid_getRequests_cases(4) ok_def)
next
  case True
  show ?thesis
  proof (cases r)
    case (Inl err)
    then show ?thesis by (simp add: hybrid_getRequests_cases(1) ok_def)
  next
    case (Inr xs)
    with True show ?thesis
      by (cases "xs = []") (simp_all add: hybrid_getRequests_cases ok_def)
  qed
qed

lemma hybrid_getUserRequests_returns: "\<exists>v w1. hybrid_getUserRequests f e r userId w = (Inr v, w1)"
proof (cases "isOnline f \<and> useFirebase f")
  case False
  then show ?thesis by (simp add: hybrid_getUserRequests_cases(4) ok_def)
next
  case True
  show ?thesis
  proof (cases r)
    case (Inl err)
    then show ?thesis by (simp add: hybrid_getUserRequests_cases(1) ok_def)
  next
    case (Inr xs)
    with True show ?thesis
      by (cases "xs = []") (simp_all add: hybrid_getUserRequests_cases ok_def)
  qed
qed

lemma hybrid_getUserNotifications_returns: "\<exists>v w1. hybrid_getUserNotifications f e r userId w = (Inr v, w1)"
proof (cases "isOnline f \<and> useFirebase f")
  case False
  then show ?thesis by (simp add: hybrid_getUserNotifications_cases(4) ok_def)
next
  case True
  show ?thesis
  proof (cases r)
    case (Inl err)
    then show ?thesis by (simp add: hybrid_getUserNotifications_cases(1) ok_def)
  next
    case (Inr xs)
    with True show ?thesis
      by (cases "xs = []") (simp_all add: hybrid_getUserNotifications_cases ok_def)
  qed
qed

lemma hybrid_authenticateUser_returns:
  "\<exists>v w1. hybrid_authenticateUser f e r_signIn r_get email password w = (Inr v, w1)"
  by (cases r_signIn; cases r_get; cases "projr r_signIn"; cases "projr r_get")
     (auto simp add: hybrid_authenticateUser_def split_beta)

lemma step_returns:
  "\<exists>f1 w1. step e ev f w = (Inr f1, w1) \<and> (useFirebase f1 \<longrightarrow> useFirebase f)"
proof (cases ev)
  case (EvOnline r)
  then show ?thesis using onOnline_returns [of f e r w] by auto
next
  case (EvInitializeFirebase r_init r_sync)
  then show ?thesis using initializeFirebase_returns [of f e r_init r_sync w] by auto
next
  case (EvGetUser r email)
  then show ?thesis using hybrid_getUser_returns [of f e r email w] by auto
next
  case (EvAuthenticateUser r_signIn r_get email password)
  then show ?thesis
    using hybrid_authenticateUser_returns [of f e r_signIn r_get email password w] by auto
next
  case (EvGetComponents r)
  then show ?thesis using hybrid_getComponents_returns [of f e r w] by auto
next
  case (EvGetRequests r)
  then show ?thesis using hybrid_getRequests_returns [of f e r w] by auto
next
  case (EvGetUserRequests r userId)
  then show ?thesis using hybrid_getUserRequests_returns [of f e r userId w] by auto
next
  case (EvGetUserNotifications r userId)
  then show ?thesis using hybrid_getUserNotifications_returns [of f e r userId w] by auto
next
  case (EvEndLoginSession r_all upd userId)
  then show ?thesis using hybrid_endLoginSession_local [of f e r_all upd userId w] by auto
qed (simp_all add: onOffline_def hybrid_addUser_local hybrid_updateUser_local
      hybrid_addComponent_local hybrid_updateComponent_local hybrid_addRequest_local
      hybrid_updateRequest_local hybrid_addNotification_local
      hybrid_markNotificationAsRead_local hybrid_createLoginSession_local)

lemma run_returns:
  "\<exists>f1 w1. run e evs f w = (Inr f1, w1) \<and> (useFirebase f1 \<longrightarrow> useFirebase f)"
proof (induction evs arbitrary: f w)
  case Nil
  show ?case by simp
next
  case (Cons ev evs)
  obtain f1 w1 where s: "step e ev f w = (Inr f1, w1)" "useFirebase f1 \<longrightarrow> useFirebase f"
    using step_returns by blast
  obtain f2 w2 where r: "run e evs f1 w1 = (Inr f2, w2)" "useFirebase f2 \<longrightarrow> useFirebase f1"
    using Cons.IH by blast
  from s r show ?case by simp
qed

text \<open>
  C9. No event re-enables the remote store: after any sequence of connectivity signals,
  initialisation outcomes and method calls, every one of which returns normally, the flag
  \<open>useFirebase\<close> is true only if it was true before; so a facade whose flag is false keeps
  it false. A failure of either step of the initialisation of a connected facade sets the
  flag to false. The handler of the \<open>online\<close> signal returns normally whatever the resync
  does and changes \<open>isOnline\<close> only; when the resync throws, the local store is left as it
  was.
\<close>

theorem remote_flag_never_reenabled:
  "(\<exists>f1 w1. run e evs f w = (Inr f1, w1) \<and> (useFirebase f1 \<longrightarrow> useFirebase f)) \<and>
   (\<not> useFirebase f \<longrightarrow> (\<exists>f1 w1. run e evs f w = (Inr f1, w1) \<and> \<not> useFirebase f1)) \<and>
   (isOnline f \<longrightarrow>
      initializeFirebase f e (Inl err) r_sync w = (Inr (f\<lparr>useFirebase := False\<rparr>), w) \<and>
      initializeFirebase f e (Inr ()) (Inl err) w = (Inr (f\<lparr>useFirebase := False\<rparr>), w)) \<and>
   (\<exists>w1. onOnline f e r w = (Inr (f\<lparr>isOnline := True\<rparr>), w1)) \<and>
   onOnline f e (Inl err) w = (Inr (f\<lparr>isOnline := True\<rparr>), w)"
proof (intro conjI impI)
  show "\<exists>f1 w1. run e evs f w = (Inr f1, w1) \<and> (useFirebase f1 \<longrightarrow> useFirebase f)"
    by (rule run_returns)
next
  assume "\<not> useFirebase f"
  then show "\<exists>f1 w1. run e evs f w = (Inr f1, w1) \<and> \<not> useFirebase f1"
    using run_returns [of e evs f w] by blast
next
  assume "isOnline f"
  then show "initializeFirebase f e (Inl err) r_sync w = (Inr (f\<lparr>useFirebase := False\<rparr>), w)"
    by (rule initializeFirebase_failure(1))
next
  assume "isOnline f"
  then show "initializeFirebase f e (Inr ()) (Inl err) w = (Inr (f\<lparr>useFirebase := False\<rparr>), w)"
    by (rule initializeFirebase_failure(2))
next
  show "\<exists>w1. onOnline f e r w = (Inr (f\<lparr>isOnline := True\<rparr>), w1)"
    by (rule onOnline_returns)
next
  show "onOnline f e (Inl err) w = (Inr (f\<lparr>isOnline := True\<rparr>), w)"
    by (rule onOnline_failure)
qed

text \<open>
  A connected facade whose initialisation fails is left with the remote store disabled,
  and stays so through a run in which the connection drops and returns twice.
\<close>

theorem remote_flag_never_reenabled_witness:
  "initializeFirebase onlineFacade env0 remoteDown remoteDown world0 = (Inr degradedFacade, world0) \<and>
   (\<exists>f1 w1. run env0 sampleEvents degradedFacade world0 = (Inr f1, w1) \<and> \<not> useFirebase f1) \<and>
   onOnline offlineFacade env0 remoteDown world0 = (Inr onlineFacade, world0)"
proof -
  have a: "isOnline onlineFacade" "\<not> useFirebase degradedFacade"
    "onlineFacade\<lparr>useFirebase := False\<rparr> = degradedFacade"
    "offlineFacade\<lparr>isOnline := True\<rparr> = onlineFacade"
    by (simp_all add: onlineFacade_def degradedFacade_def offlineFacade_def)
  have "initializeFirebase onlineFacade env0 remoteDown remoteDown world0 =
          (Inr degradedFacade, world0)"
    using remote_flag_never_reenabled [of env0 evs onlineFacade world0 "RemoteError ''unavailable''"
        remoteDown] a
    by (simp add: remoteDown_def)
  moreover have "\<exists>f1 w1. run env0 sampleEvents degradedFacade world0 = (Inr f1, w1) \<and> \<not> useFirebase f1"
    using remote_flag_never_reenabled [of env0 sampleEvents degradedFacade world0] a by blast
  moreover have "onOnline offlineFacade env0 remoteDown world0 = (Inr onlineFacade, world0)"
    using remote_flag_never_reenabled [of env0 evs offlineFacade world0 "RemoteError ''unavailable''"] a
    by (simp add: remoteDown_def)
  ultimately show ?thesis by blast
qed

section \<open>Registration\<close>

lemma persisted_now [simp]: "persisted (snd (now e w)) = persisted w"
  by (simp add: persisted_def now_def)

lemma hybrid_getUser_found:
  assumes "find (\<lambda>u. u_email u = email) (storedUsers e w) = Some user"
  shows "\<exists>u w1. hybrid_getUser f e r email w = (Inr (Some u), w1) \<and> persisted w1 = persisted w"
proof -
  have loc: "ok (getUser e email w) = (Inr (Some user), snd (getData e w))"
    using assms by (simp add: ok_def getUser_eq)
  have p: "persisted (snd (getData e w)) = persisted w" by (rule persisted_getData)
  show ?thesis
  proof (cases "isOnline f \<and> useFirebase f")
    case False
    then show ?thesis using loc p by (simp add: hybrid_getUser_cases(4))
  next
    case True
    show ?thesis
    proof (cases r)
      case (Inl err)
      then show ?thesis using loc p by (simp add: hybrid_getUser_cases(1))
    next
      case (Inr v)
      show ?thesis
      proof (cases v)
        case None
        with Inr show ?thesis using loc p by (simp add: hybrid_getUser_cases(2))
      next
        case (Some u)
        with Inr True show ?thesis by (simp add: hybrid_getUser_cases(3))
      qed
    qed
  qed
qed

lemma emails_same_slot:
  "dataSlot w1 = dataSlot w \<Longrightarrow> map u_email (storedUsers e w1) = map u_email (storedUsers e w)"
  by (simp add: storedUsers_def getData_def getDefaultData_def now_def split: option.splits)

lemma signUp_tolerated: "try_catch (r, w) (\<lambda>firebaseError w2. (Inr (), w2)) = (Inr (), w)"
  by (cases r) simp_all

lemma register_existing:
  assumes "hybrid_getUser f e (rr_getUserByEmail rr) (rd_email data) w = (Inr (Some u), w1)"
  shows "register f e rr data w = (Inr False, w1)"
  using assms by (simp add: register_def)

text \<open>The user a registration builds, from the three clock reads that follow the lookup.\<close>

lemma register_new:
  assumes "hybrid_getUser f e (rr_getUserByEmail rr) (rd_email data) w = (Inr None, w1)"
  shows "\<exists>newUser wa n. register f e rr data w =
      (Inr True,
       addNotification e n
         (snd (now e (snd (now e
            ((setUserPassword (rd_email data) (rd_password data)
               (snd (createLoginSession e (fst (addUser e newUser wa)) (snd (addUser e newUser wa)))))
             \<lparr>currentUserSlot := Some (fst (addUser e newUser wa))\<rparr>)))))) \<and>
      u_email newUser = rd_email data \<and> u_role newUser = Student \<and> dataSlot wa = dataSlot w1"
proof -
  let ?w4 = "snd (now e (snd (now e (snd (now e w1)))))"
  let ?nu = "\<lparr>u_id = ''user-'' @ string_of_int (fst (now e w1)), u_name = rd_name data,
             u_email = rd_email data, u_role = Student,
             u_rollNo = Some (rd_rollNumber data), u_mobile = Some (rd_mobile data),
             u_registeredAt = fst (now e (snd (now e w1))),
             u_lastLoginAt = Some (fst (now e (snd (now e (snd (now e w1)))))),
             u_loginCount = 1, u_isActive = True\<rparr>"
  let ?nu1 = "?nu\<lparr>u_id := storedId f (rr_createUser rr) (u_id ?nu)\<rparr>"
  have d: "dataSlot ?w4 = dataSlot w1" by (simp add: now_def)
  let ?w9 = "(setUserPassword (rd_email data) (rd_password data)
               (snd (createLoginSession e (fst (addUser e ?nu1 ?w4)) (snd (addUser e ?nu1 ?w4)))))
             \<lparr>currentUserSlot := Some (fst (addUser e ?nu1 ?w4))\<rparr>"
  let ?n = "\<lparr>n_id = storedId f (rr_createNotification rr) (''notif-'' @ string_of_int (fst (now e ?w9))),
            n_userId = u_id (fst (addUser e ?nu1 ?w4)),
            n_title = welcomeTitle, n_message = welcomeMessage,
            n_type = ''success'', n_read = False,
            n_createdAt = fst (now e (snd (now e ?w9)))\<rparr>"
  have "register f e rr data w = (Inr True, addNotification e ?n (snd (now e (snd (now e ?w9)))))"
    by (simp add: register_def assms signUp_tolerated split_beta Let_def hybrid_addUser_local
        hybrid_createLoginSession_local hybrid_addNotification_local ok_def)
  moreover have "u_email ?nu1 = rd_email data \<and> u_role ?nu1 = Student" by simp
  ultimately show ?thesis using d by blast
qed

text \<open>
  C6. When the snapshot of the local store holds a user with the email of the
  registration, \<open>register\<close> returns \<open>false\<close>, whatever the facade's flags and the remote
  outcomes are, and every slot of the local store is what it was: no user is added, and
  the emails of the stored users are the same.
\<close>

theorem duplicate_registration_rejected:
  assumes "find (\<lambda>u. u_email u = rd_email data) (storedUsers e w) \<noteq> None"
  shows "fst (register f e rr data w) = Inr False \<and>
         persisted (snd (register f e rr data w)) = persisted w \<and>
         map u_email (storedUsers e (snd (register f e rr data w))) = map u_email (storedUsers e w)"
proof -
  from assms obtain user where
    "find (\<lambda>u. u_email u = rd_email data) (storedUsers e w) = Some user" by auto
  from hybrid_getUser_found [OF this, of f "rr_getUserByEmail rr"]
  obtain u w1 where g: "hybrid_getUser f e (rr_getUserByEmail rr) (rd_email data) w = (Inr (Some u), w1)"
    and p: "persisted w1 = persisted w" by blast
  have r: "register f e rr data w = (Inr False, w1)"
    by (simp add: register_def g)
  have "dataSlot w1 = dataSlot w" using p by (simp add: persisted_def)
  then have "map u_email (storedUsers e w1) = map u_email (storedUsers e w)"
    by (rule emails_same_slot)
  with r p show ?thesis by simp
qed


lemma storedUsers_slot: "dataSlot w = Some d \<Longrightarrow> storedUsers e w = users d"
  by (simp add: storedUsers_def getData_def)

lemma dataSlot_addUser:
  "dataSlot (snd (addUser e u w)) =
     Some ((fst (getData e w))\<lparr>users := storedUsers e w @ [u\<lparr>u_loginCount := 0, u_isActive := False\<rparr>]\<rparr>)"
  by (simp add: addUser_def split_beta Let_def saveData_def storedUsers_def)

lemma users_kept:
  assumes "dataSlot w = Some d"
  shows "\<exists>d1. dataSlot (snd (createLoginSession e u w)) = Some d1 \<and> users d1 = users d"
    and "\<exists>d1. dataSlot (addNotification e n w) = Some d1 \<and> users d1 = users d"
    and "dataSlot (setUserPassword email password w) = Some d"
    and "dataSlot (snd (now e w)) = Some d"
    and "dataSlot (w\<lparr>currentUserSlot := c\<rparr>) = Some d"
  using assms
  by (simp_all add: createLoginSession_def addNotification_def setUserPassword_def now_def
      mathRandom_def getData_def saveData_def split_beta Let_def)

lemma hybrid_getUser_None:
  assumes "hybrid_getUser f e r email w = (Inr None, w1)"
  shows "find (\<lambda>u. u_email u = email) (storedUsers e w) = None \<and> w1 = snd (getData e w)"
proof -
  have loc: "ok (getUser e email w) = (Inr None, w1) \<Longrightarrow> ?thesis"
    by (simp add: ok_def getUser_eq)
  show ?thesis
  proof (cases "isOnline f \<and> useFirebase f")
    case False
    with assms loc show ?thesis by (simp add: hybrid_getUser_cases(4))
  next
    case True
    show ?thesis
    proof (cases r)
      case (Inl err)
      with assms loc show ?thesis by (simp add: hybrid_getUser_cases(1))
    next
      case (Inr v)
      show ?thesis
      proof (cases v)
        case None
        with Inr assms loc show ?thesis by (simp add: hybrid_getUser_cases(2))
      next
        case (Some u)
        with Inr True assms show ?thesis by (simp add: hybrid_getUser_cases(3))
      qed
    qed
  qed
qed

lemma register_new_users:
  assumes g: "hybrid_getUser f e (rr_getUserByEmail rr) (rd_email data) w = (Inr None, w1)"
  shows "fst (register f e rr data w) = Inr True \<and>
    (\<exists>us u. storedUsers e (snd (register f e rr data w)) = us @ [u] \<and>
        map u_email us = map u_email (storedUsers e w) \<and>
        u_email u = rd_email data \<and> u_role u = Student \<and> u_loginCount u = 0 \<and> \<not> u_isActive u)"
proof -
  from register_new [OF g] obtain newUser wa n where
    r: "register f e rr data w =
      (Inr True,
       addNotification e n
         (snd (now e (snd (now e
            ((setUserPassword (rd_email data) (rd_password data)
               (snd (createLoginSession e (fst (addUser e newUser wa)) (snd (addUser e newUser wa)))))
             \<lparr>currentUserSlot := Some (fst (addUser e newUser wa))\<rparr>))))))"
    and u: "u_email newUser = rd_email data" "u_role newUser = Student" and d6: "dataSlot wa = dataSlot w1"
    by blast
  let ?u = "newUser\<lparr>u_loginCount := 0, u_isActive := False\<rparr>"
  let ?d = "(fst (getData e wa))\<lparr>users := storedUsers e wa @ [?u]\<rparr>"
  have a: "dataSlot (snd (addUser e newUser wa)) = Some ?d" by (rule dataSlot_addUser)
  from users_kept(1) [OF a] obtain d1 where
    d1: "dataSlot (snd (createLoginSession e (fst (addUser e newUser wa)) (snd (addUser e newUser wa)))) = Some d1"
    "users d1 = users ?d" by blast
  note k = users_kept(4) [OF users_kept(4) [OF users_kept(5) [OF users_kept(3) [OF d1(1)]]],
      where e = e and ?e1 = e and ?c2 = "Some (fst (addUser e newUser wa))"
        and ?email3 = "rd_email data" and ?password3 = "rd_password data"]
  from users_kept(2) [OF k, where e = e and n = n] obtain d2 where
    d2: "dataSlot (snd (register f e rr data w)) = Some d2" "users d2 = users d1"
    unfolding r by auto
  have su: "storedUsers e (snd (register f e rr data w)) = storedUsers e wa @ [?u]"
    using storedUsers_slot [OF d2(1)] d2(2) d1(2) by simp
  from hybrid_getUser_None [OF g] have "persisted w1 = persisted w"
    by (simp add: persisted_getData)
  then have "dataSlot wa = dataSlot w"
    using d6 by (simp add: persisted_def)
  then have "map u_email (storedUsers e wa) = map u_email (storedUsers e w)"
    by (rule emails_same_slot)
  moreover have "fst (register f e rr data w) = Inr True"
    by (simp add: r)
  ultimately show ?thesis
    using su u by simp
qed

lemma find_append_last:
  "find P us = None \<Longrightarrow> P u \<Longrightarrow> find P (us @ [u]) = Some u"
  by (induction us) (auto split: if_splits)

lemma find_email_None:
  "(find (\<lambda>u. u_email u = email) us = None) = (email \<notin> set (map u_email us))"
  by (induction us) auto

lemma find_map_email:
  "map u_email us = map u_email vs \<Longrightarrow>
     (find (\<lambda>u. u_email u = email) us = None) = (find (\<lambda>u. u_email u = email) vs = None)"
  by (simp only: find_email_None)

text \<open>Every registration that succeeds stores the new user with the counters reset.\<close>

lemma register_success_user:
  assumes "fst (register f e rr data w) = Inr True"
  shows "\<exists>u. find (\<lambda>x. u_email x = rd_email data) (storedUsers e (snd (register f e rr data w))) = Some u \<and>
           u_role u = Student \<and> u_loginCount u = 0 \<and> \<not> u_isActive u"
proof -
  obtain v w1 where g: "hybrid_getUser f e (rr_getUserByEmail rr) (rd_email data) w = (Inr v, w1)"
    using hybrid_getUser_returns by blast
  show ?thesis
  proof (cases v)
    case (Some x)
    with g assms show ?thesis by (simp add: register_existing)
  next
    case None
    with g have g0: "hybrid_getUser f e (rr_getUserByEmail rr) (rd_email data) w = (Inr None, w1)"
      by simp
    from register_new_users [OF g0] obtain us u where
      su: "storedUsers e (snd (register f e rr data w)) = us @ [u]"
      and m: "map u_email us = map u_email (storedUsers e w)"
      and u: "u_email u = rd_email data" "u_role u = Student" "u_loginCount u = 0" "\<not> u_isActive u"
      by blast
    from hybrid_getUser_None [OF g0]
    have "find (\<lambda>x. u_email x = rd_email data) (storedUsers e w) = None" by simp
    then have "find (\<lambda>x. u_email x = rd_email data) us = None"
      using find_map_email [OF m, of "rd_email data"] by simp
    then have "find (\<lambda>x. u_email x = rd_email data) (us @ [u]) = Some u"
      using u(1) by (rule find_append_last)
    with su u show ?thesis by simp
  qed
qed


lemma alice_is_new:
  "hybrid_getUser offlineFacade env0 (rr_getUserByEmail allDown) (rd_email aliceData) world0 =
     (Inr None, snd (getData env0 world0))"
  "hybrid_getUser onlineFacade env0 (rr_getUserByEmail allUp) (rd_email aliceData) world0 =
     (Inr None, snd (getData env0 world0))"
  by (simp_all add: allDown_def allUp_def remoteDown_def hybrid_getUser_cases ok_def getUser_eq
      storedUsers_def getData_world0 getDefaultData_def now_def aliceData_def)

text \<open>
  C3. \<open>register\<close> builds the new user with \<open>role = student\<close>, \<open>loginCount = 1\<close> and
  \<open>isActive = true\<close> and hands it to \<open>addUser\<close>, which sets \<open>loginCount = 0\<close> and
  \<open>isActive = false\<close> before it stores the user; nothing later in the flow updates the
  stored record. Registering Alice on a first run, with the remote store unreachable and
  with the remote store answering, succeeds and leaves her stored as a student with
  \<open>loginCount = 0\<close> and \<open>isActive = false\<close>.
\<close>

theorem registration_stores_reset_counters:
  "fst (register offlineFacade env0 allDown aliceData world0) = Inr True \<and>
   (\<exists>u. find (\<lambda>x. u_email x = ''alice@example.org'')
           (storedUsers env0 (snd (register offlineFacade env0 allDown aliceData world0))) = Some u \<and>
        u_role u = Student \<and> u_loginCount u = 0 \<and> \<not> u_isActive u) \<and>
   fst (register onlineFacade env0 allUp aliceData world0) = Inr True \<and>
   (\<exists>u. find (\<lambda>x. u_email x = ''alice@example.org'')
           (storedUsers env0 (snd (register onlineFacade env0 allUp aliceData world0))) = Some u \<and>
        u_role u = Student \<and> u_loginCount u = 0 \<and> \<not> u_isActive u)"
proof -
  have e: "rd_email aliceData = ''alice@example.org''" by (simp add: aliceData_def)
  have a: "fst (register offlineFacade env0 allDown aliceData world0) = Inr True"
    using register_new_users [OF alice_is_new(1)] by blast
  have b: "fst (register onlineFacade env0 allUp aliceData world0) = Inr True"
    using register_new_users [OF alice_is_new(2)] by blast
  from register_success_user [OF a] register_success_user [OF b] a b show ?thesis
    unfolding e by blast
qed

text \<open>Alice registers on a first run, then a second time: the second attempt changes nothing.\<close>

theorem duplicate_registration_rejected_witness:
  "fst (register offlineFacade env0 allDown aliceData world0) = Inr True \<and>
   fst (register offlineFacade env0 allDown aliceData
          (snd (register offlineFacade env0 allDown aliceData world0))) = Inr False \<and>
   persisted (snd (register offlineFacade env0 allDown aliceData
          (snd (register offlineFacade env0 allDown aliceData world0)))) =
     persisted (snd (register offlineFacade env0 allDown aliceData world0))"
proof -
  let ?w1 = "snd (register offlineFacade env0 allDown aliceData world0)"
  have a: "fst (register offlineFacade env0 allDown aliceData world0) = Inr True"
    using register_new_users [OF alice_is_new(1)] by blast
  from register_success_user [OF a]
  have h: "find (\<lambda>u. u_email u = rd_email aliceData) (storedUsers env0 ?w1) \<noteq> None" by auto
  from duplicate_registration_rejected [OF h, of offlineFacade allDown] a
  show ?thesis by simp
qed

section \<open>The facade's writes and the persisted snapshot\<close>


lemma getData_fst_snd: "dataSlot (snd (getData e w)) = dataSlot w"
  by (simp add: getData_def getDefaultData_def now_def split: option.splits)




















section \<open>Local updates of an entity that is not stored\<close>

text \<open>
  C10. \<open>updateUser\<close>, \<open>updateComponent\<close> and \<open>updateRequest\<close>, given an entity whose id is
  the id of no stored entity of its type (stored in the snapshot \<open>getData\<close> loads, the
  default dataset when nothing is persisted), do not save: the world they leave is the
  world the load left, and every slot of the local store is what it was. Nothing is
  inserted and nothing is changed.
\<close>

theorem update_without_match_writes_nothing:
  "((\<forall>u \<in> set (users (fst (getData e w))). u_id u \<noteq> u_id user) \<longrightarrow>
      updateUser e user w = snd (getData e w) \<and> persisted (updateUser e user w) = persisted w) \<and>
   ((\<forall>c \<in> set (components (fst (getData e w))). c_id c \<noteq> c_id component) \<longrightarrow>
      updateComponent e component w = snd (getData e w) \<and>
      persisted (updateComponent e component w) = persisted w) \<and>
   ((\<forall>r \<in> set (requests (fst (getData e w))). r_id r \<noteq> r_id request) \<longrightarrow>
      updateRequest e request w = snd (getData e w) \<and>
      persisted (updateRequest e request w) = persisted w)"
proof (intro conjI impI)
  assume h: "\<forall>u \<in> set (users (fst (getData e w))). u_id u \<noteq> u_id user"
  then have "findIndex (\<lambda>u. u_id u = u_id user) (users (fst (getData e w))) = None"
    by (simp add: findIndex_None_iff)
  then show "updateUser e user w = snd (getData e w)"
    by (simp add: updateUser_def split_beta)
  then show "persisted (updateUser e user w) = persisted w"
    by (simp add: persisted_getData)
next
  assume h: "\<forall>c \<in> set (components (fst (getData e w))). c_id c \<noteq> c_id component"
  then have "findIndex (\<lambda>c. c_id c = c_id component) (components (fst (getData e w))) = None"
    by (simp add: findIndex_None_iff)
  then show "updateComponent e component w = snd (getData e w)"
    by (simp add: updateComponent_def split_beta)
  then show "persisted (updateComponent e component w) = persisted w"
    by (simp add: persisted_getData)
next
  assume h: "\<forall>r \<in> set (requests (fst (getData e w))). r_id r \<noteq> r_id request"
  then have "findIndex (\<lambda>r. r_id r = r_id request) (requests (fst (getData e w))) = None"
    by (simp add: findIndex_None_iff)
  then show "updateRequest e request w = snd (getData e w)"
    by (simp add: updateRequest_def split_beta)
  then show "persisted (updateRequest e request w) = persisted w"
    by (simp add: persisted_getData)
qed

text \<open>
  On the first run the default dataset holds the user \<open>admin-1\<close> and the component
  \<open>comp-1\<close> only; updating entities with the id \<open>ghost\<close> leaves the snapshot slot empty.
\<close>

theorem update_without_match_writes_nothing_witness:
  "dataSlot (updateUser env0 ghostUser world0) = None \<and>
   dataSlot (updateComponent env0 ghostComponent world0) = None \<and>
   dataSlot (updateRequest env0 ghostRequest world0) = None"
proof -
  have h1: "\<forall>u \<in> set (users (fst (getData env0 world0))). u_id u \<noteq> u_id ghostUser"
    by (simp add: getData_world0 getDefaultData_def now_def ghostUser_def)
  have h2: "\<forall>c \<in> set (components (fst (getData env0 world0))). c_id c \<noteq> c_id ghostComponent"
    by (simp add: getData_world0 getDefaultData_def now_def ghostComponent_def)
  have h3: "\<forall>r \<in> set (requests (fst (getData env0 world0))). r_id r \<noteq> r_id ghostRequest"
    by (simp add: getData_world0 getDefaultData_def now_def)
  have "persisted (updateUser env0 ghostUser world0) = persisted world0 \<and>
        persisted (updateComponent env0 ghostComponent world0) = persisted world0 \<and>
        persisted (updateRequest env0 ghostRequest world0) = persisted world0"
    using update_without_match_writes_nothing [of env0 world0 ghostUser ghostComponent ghostRequest]
      h1 h2 h3 by blast
  then show ?thesis
    by (simp add: persisted_def world0_def)
qed

end
